theory Spec2Isabelle
  imports Complex_Main "HOL-Library.Sublist"
begin

section \<open>Errors\<close>

text \<open>
  Every \<open>throw\<close> of the source is a value: the class of the thrown object and its
  message. A function that may throw returns \<open>js_error + 'a\<close>, with \<open>Inl\<close> the
  thrown error.
\<close>

datatype js_error =
    Error string
  | StagehandError string
  | SyntaxError string
  | TypeError string
  | SchemaValidationError string

section \<open>Log lines\<close>

text \<open>
  A log line (\<open>LogLine\<close> of \<open>types/log\<close>) has an optional category, a message and an
  optional level; its auxiliary data is left out.
\<close>

record LogLine =
  category :: "string option"
  message :: string
  level :: "nat option"

section \<open>Metrics (src/lib/index.ts, Stagehand.updateMetrics)\<close>

text \<open>
  The counters are JavaScript numbers that hold token counts and milliseconds; they are
  modelled as unbounded integers. \<open>StagehandFunctionName\<close> is declared in
  \<open>types/stagehand\<close>, outside the sources at hand.

  Modelled from the spec: the enum \<open>StagehandFunctionName\<close> has the three operation
  kinds act, extract and observe, the three members the \<open>switch\<close> of
  \<open>updateMetrics\<close> names.
\<close>

datatype StagehandFunctionName = ACT | EXTRACT | OBSERVE

record StagehandMetrics =
  actPromptTokens :: int
  actCompletionTokens :: int
  actInferenceTimeMs :: int
  extractPromptTokens :: int
  extractCompletionTokens :: int
  extractInferenceTimeMs :: int
  observePromptTokens :: int
  observeCompletionTokens :: int
  observeInferenceTimeMs :: int
  totalPromptTokens :: int
  totalCompletionTokens :: int
  totalInferenceTimeMs :: int

definition updateTotalMetrics ::
  "int \<Rightarrow> int \<Rightarrow> int \<Rightarrow> StagehandMetrics \<Rightarrow> StagehandMetrics" where
  "updateTotalMetrics promptTokens completionTokens inferenceTimeMs m =
     m\<lparr>totalPromptTokens := totalPromptTokens m + promptTokens,
       totalCompletionTokens := totalCompletionTokens m + completionTokens,
       totalInferenceTimeMs := totalInferenceTimeMs m + inferenceTimeMs\<rparr>"

fun updateMetrics ::
  "StagehandFunctionName \<Rightarrow> int \<Rightarrow> int \<Rightarrow> int \<Rightarrow> StagehandMetrics \<Rightarrow> StagehandMetrics" where
  "updateMetrics ACT promptTokens completionTokens inferenceTimeMs m =
     updateTotalMetrics promptTokens completionTokens inferenceTimeMs
       (m\<lparr>actPromptTokens := actPromptTokens m + promptTokens,
          actCompletionTokens := actCompletionTokens m + completionTokens,
          actInferenceTimeMs := actInferenceTimeMs m + inferenceTimeMs\<rparr>)"
| "updateMetrics EXTRACT promptTokens completionTokens inferenceTimeMs m =
     updateTotalMetrics promptTokens completionTokens inferenceTimeMs
       (m\<lparr>extractPromptTokens := extractPromptTokens m + promptTokens,
          extractCompletionTokens := extractCompletionTokens m + completionTokens,
          extractInferenceTimeMs := extractInferenceTimeMs m + inferenceTimeMs\<rparr>)"
| "updateMetrics OBSERVE promptTokens completionTokens inferenceTimeMs m =
     updateTotalMetrics promptTokens completionTokens inferenceTimeMs
       (m\<lparr>observePromptTokens := observePromptTokens m + promptTokens,
          observeCompletionTokens := observeCompletionTokens m + completionTokens,
          observeInferenceTimeMs := observeInferenceTimeMs m + inferenceTimeMs\<rparr>)"

text \<open>The initial value of the field \<open>stagehandMetrics\<close>.\<close>

definition initialMetrics :: StagehandMetrics where
  "initialMetrics =
     \<lparr>actPromptTokens = 0, actCompletionTokens = 0, actInferenceTimeMs = 0,
      extractPromptTokens = 0, extractCompletionTokens = 0, extractInferenceTimeMs = 0,
      observePromptTokens = 0, observeCompletionTokens = 0, observeInferenceTimeMs = 0,
      totalPromptTokens = 0, totalCompletionTokens = 0, totalInferenceTimeMs = 0\<rparr>"

text \<open>
  Reading aids for the statements: the three counters of one operation kind, the three
  totals, and all twelve counters in the order of the record.
\<close>

fun kindCounters :: "StagehandFunctionName \<Rightarrow> StagehandMetrics \<Rightarrow> int \<times> int \<times> int" where
  "kindCounters ACT m = (actPromptTokens m, actCompletionTokens m, actInferenceTimeMs m)"
| "kindCounters EXTRACT m =
     (extractPromptTokens m, extractCompletionTokens m, extractInferenceTimeMs m)"
| "kindCounters OBSERVE m =
     (observePromptTokens m, observeCompletionTokens m, observeInferenceTimeMs m)"

definition totalCounters :: "StagehandMetrics \<Rightarrow> int \<times> int \<times> int" where
  "totalCounters m = (totalPromptTokens m, totalCompletionTokens m, totalInferenceTimeMs m)"

definition allCounters :: "StagehandMetrics \<Rightarrow> int list" where
  "allCounters m =
     [actPromptTokens m, actCompletionTokens m, actInferenceTimeMs m,
      extractPromptTokens m, extractCompletionTokens m, extractInferenceTimeMs m,
      observePromptTokens m, observeCompletionTokens m, observeInferenceTimeMs m,
      totalPromptTokens m, totalCompletionTokens m, totalInferenceTimeMs m]"

section \<open>Agent (src/lib/index.ts, Stagehand.agent)\<close>

text \<open>
  \<open>AgentExecuteOptions\<close> is declared in \<open>types/agent\<close>, outside the sources at
  hand; \<open>execute\<close> reads only its \<open>instruction\<close>. The record keeps the instruction
  (absent is \<open>None\<close>) and the remaining properties of the object as a list of
  key-value pairs. The argument of \<open>execute\<close> has the union type
  \<open>string | AgentExecuteOptions\<close>.

  \<open>agentHandler.execute\<close> is a method of \<open>StagehandAgentHandler\<close>, outside the
  sources at hand: it is a parameter, any function from the options and the state it
  works on to an outcome and the state it leaves.
\<close>

record 'v AgentExecuteOptions =
  instruction :: "string option"
  otherOptions :: "(string \<times> 'v) list"

datatype 'v execute_argument =
    InstructionString string
  | OptionsObject "'v AgentExecuteOptions"

text \<open>\<open>!executeOptions.instruction\<close>: an absent instruction and the empty string are falsy.\<close>

definition falsy_string :: "string option \<Rightarrow> bool" where
  "falsy_string s = (case s of None \<Rightarrow> True | Some x \<Rightarrow> x = [])"

definition agent_execute ::
  "('v AgentExecuteOptions \<Rightarrow> 's \<Rightarrow> (js_error + 'r) \<times> 's) \<Rightarrow> 'v execute_argument \<Rightarrow> 's
     \<Rightarrow> (js_error + 'r) \<times> 's" where
  "agent_execute agentHandler_execute instructionOrOptions s =
     (let executeOptions =
        (case instructionOrOptions of
           InstructionString i \<Rightarrow> \<lparr>instruction = Some i, otherOptions = []\<rparr>
         | OptionsObject opts \<Rightarrow> opts)
      in if falsy_string (instruction executeOptions)
         then (Inl (Error ''Instruction is required for agent execution''), s)
         else agentHandler_execute executeOptions s)"

text \<open>
  A handler for concrete runs: it records the options it is given and succeeds with the
  number of dispatches so far.
\<close>

definition recording_handler ::
  "'v AgentExecuteOptions \<Rightarrow> 'v AgentExecuteOptions list
     \<Rightarrow> (js_error + nat) \<times> 'v AgentExecuteOptions list" where
  "recording_handler opts dispatched = (Inr (Suc (length dispatched)), dispatched @ [opts])"

section \<open>Google client: message preparation (GoogleClient, prepareGoogleContent)\<close>

text \<open>
  \<open>Content\<close> and \<open>Part\<close> are the types of the Google SDK: a content entry has a role
  (a string: the client produces \<open>user\<close> and \<open>model\<close>) and a list of parts; a part is
  a text, inline data (mime type, base64 data) or file data (mime type, URI).
\<close>

datatype Part =
    TextPart string
  | InlineDataPart string string
  | FileDataPart string string

record Content =
  role :: string
  parts :: "Part list"

text \<open>
  One turn of the loop \<open>for (const content of contents)\<close> on the array \<open>result\<close>:
  push the entry when \<open>result\<close> is empty or the roles differ, otherwise append its parts
  to the last entry of \<open>result\<close>.
\<close>

definition merge_step :: "Content list \<Rightarrow> Content \<Rightarrow> Content list" where
  "merge_step result content =
     (if result = [] \<or> role content \<noteq> role (last result) then result @ [content]
      else butlast result @ [(last result)\<lparr>parts := parts (last result) @ parts content\<rparr>])"

text \<open>
  \<open>prepareGoogleContent(contents, systemInstruction)\<close>. The optional instruction is
  tested for truthiness: absent and the empty string count as not provided. The function
  is private to the module and is called on the fresh array that
  \<open>mapMessagesToGoogleContent\<close> builds, so no entry is shared between two positions and
  the in-place update of \<open>parts\<close> is an update of one entry of the result.
\<close>

definition prepareGoogleContent :: "Content list \<Rightarrow> string option \<Rightarrow> Content list" where
  "prepareGoogleContent contents systemInstruction =
     (if contents = [] then
        (case systemInstruction of
           None \<Rightarrow> []
         | Some si \<Rightarrow> if si = [] then [] else [\<lparr>role = ''user'', parts = [TextPart si]\<rparr>])
      else
        (case systemInstruction of
           None \<Rightarrow> foldl merge_step [] contents
         | Some si \<Rightarrow>
             if si = [] then foldl merge_step [] contents
             else if role (hd contents) = ''user'' then
               foldl merge_step
                 [(hd contents)\<lparr>parts := TextPart (si @ [CHR 0x0A, CHR 0x0A]) # parts (hd contents)\<rparr>]
                 (tl contents)
             else foldl merge_step [\<lparr>role = ''user'', parts = [TextPart si]\<rparr>] contents))"

subsection \<open>What the result is, in the words of its description\<close>

text \<open>
  The description of the result, to be compared with the loop: the sequence is cut into
  its maximal runs of consecutive entries with the same role (\<open>role_runs\<close>), and each
  run becomes one entry with the run's role and the concatenation, in order, of the
  parts of its entries (\<open>merged_entry\<close>). A provided system instruction comes first
  (\<open>with_system_instruction\<close>): as a new first part of the first entry, followed by two
  newlines, when that entry is a user message, and as a user entry of its own before the
  sequence otherwise.
\<close>

fun role_runs :: "Content list \<Rightarrow> Content list list" where
  "role_runs [] = []"
| "role_runs (c # cs) =
     (case role_runs cs of
        [] \<Rightarrow> [[c]]
      | r # rs \<Rightarrow> if role c = role (hd r) then (c # r) # rs else [c] # r # rs)"

definition merged_entry :: "Content list \<Rightarrow> Content" where
  "merged_entry run = \<lparr>role = role (hd run), parts = concat (map parts run)\<rparr>"

definition with_system_instruction :: "Content list \<Rightarrow> string option \<Rightarrow> Content list" where
  "with_system_instruction contents systemInstruction =
     (case systemInstruction of
        None \<Rightarrow> contents
      | Some si \<Rightarrow>
          if si = [] then contents
          else (case contents of
                  [] \<Rightarrow> [\<lparr>role = ''user'', parts = [TextPart si]\<rparr>]
                | c # cs \<Rightarrow>
                    if role c = ''user''
                    then c\<lparr>parts := TextPart (si @ [CHR 0x0A, CHR 0x0A]) # parts c\<rparr> # cs
                    else \<lparr>role = ''user'', parts = [TextPart si]\<rparr> # c # cs))"

section \<open>Variable placeholders (fillInVariables)\<close>

text \<open>
  Strings are lists of characters; a string with characters beyond ASCII is the list of
  its bytes in UTF-8. An occurrence of one well-formed string in another is the same in
  this reading as in the code units of the language, and the characters that
  \<open>fillInVariables\<close> and \<open>replace\<close> write or look for are ASCII.

  \<open>String.prototype.toUpperCase\<close> is a builtin of the language, with the case
  mapping of Unicode: it is a parameter of \<open>fillInVariables\<close>, any function on
  strings, and what is proved holds for every such function. For concrete runs on keys
  of ASCII characters, \<open>toUpperCase_ascii\<close> is what the builtin does there: the
  letters a to z go to A to Z, the other ASCII characters stay.
\<close>

definition toUpperCase_ascii_char :: "char \<Rightarrow> char" where
  "toUpperCase_ascii_char c =
     (case map_of (zip ''abcdefghijklmnopqrstuvwxyz'' ''ABCDEFGHIJKLMNOPQRSTUVWXYZ'') c of
        Some u \<Rightarrow> u
      | None \<Rightarrow> c)"

definition toUpperCase_ascii :: "string \<Rightarrow> string" where
  "toUpperCase_ascii s = map toUpperCase_ascii_char s"

text \<open>
  \<open>String.prototype.indexOf\<close>: the position of the first occurrence of the search
  string, \<open>None\<close> for JavaScript's \<open>-1\<close>.
\<close>

fun indexOf :: "string \<Rightarrow> string \<Rightarrow> nat option" where
  "indexOf [] searchString = (if searchString = [] then Some 0 else None)"
| "indexOf (c # cs) searchString =
     (if prefix searchString (c # cs) then Some 0
      else map_option Suc (indexOf cs searchString))"

text \<open>
  \<open>String.prototype.replace(searchValue, replaceValue)\<close> with two strings replaces the
  first occurrence only, and expands the dollar patterns of the replacement string
  (\<open>GetSubstitution\<close> of the language standard). With a string as search value there
  are no capture groups, so the patterns are \<open>$$\<close> (a dollar sign), \<open>$&\<close> (the matched
  text), \<open>$`\<close> (the text before the match) and \<open>$'\<close> (the text after it); every other
  dollar sign stands for itself.
\<close>

fun GetSubstitution :: "string \<Rightarrow> string \<Rightarrow> string \<Rightarrow> string \<Rightarrow> string" where
  "GetSubstitution matched preceding following [] = []"
| "GetSubstitution matched preceding following [c] = [c]"
| "GetSubstitution matched preceding following (c # d # template) =
     (if c = CHR ''$'' \<and> d = CHR ''$''
        then CHR ''$'' # GetSubstitution matched preceding following template
      else if c = CHR ''$'' \<and> d = CHR ''&''
        then matched @ GetSubstitution matched preceding following template
      else if c = CHR ''$'' \<and> d = CHR 0x60
        then preceding @ GetSubstitution matched preceding following template
      else if c = CHR ''$'' \<and> d = CHR 0x27
        then following @ GetSubstitution matched preceding following template
      else c # GetSubstitution matched preceding following (d # template))"

definition String_replace :: "string \<Rightarrow> string \<Rightarrow> string \<Rightarrow> string" where
  "String_replace str searchValue replaceValue =
     (case indexOf str searchValue of
        None \<Rightarrow> str
      | Some pos \<Rightarrow>
          (let preceding = take pos str;
               following = drop (pos + length searchValue) str
           in preceding @ GetSubstitution searchValue preceding following replaceValue
                @ following))"

definition placeholder :: "(string \<Rightarrow> string) \<Rightarrow> string \<Rightarrow> string" where
  "placeholder toUpperCase key = ''<|'' @ toUpperCase key @ ''|>''"

text \<open>
  \<open>fillInVariables(text, variables)\<close>. The variables are the list
  \<open>Object.entries(variables)\<close>, in the order \<open>forEach\<close> visits it.
\<close>

definition fillInVariables ::
  "(string \<Rightarrow> string) \<Rightarrow> string \<Rightarrow> (string \<times> string) list \<Rightarrow> string" where
  "fillInVariables toUpperCase text0 variables =
     foldl (\<lambda>processedText (key, v).
              String_replace processedText (placeholder toUpperCase key) v)
       text0 variables"

text \<open>The search string occurs in \<open>str\<close> at position \<open>i\<close>.\<close>

definition occurs_at :: "string \<Rightarrow> string \<Rightarrow> nat \<Rightarrow> bool" where
  "occurs_at searchString str i = (i \<le> length str \<and> prefix searchString (drop i str))"

section \<open>JavaScript values and objects\<close>

text \<open>
  The values that model responses carry: the values of JSON, and \<open>undefined\<close> for a
  property that is not there. A number is written as the rational it denotes. An object
  is the list of its properties in their order.
\<close>

datatype js_value =
    JUndefined
  | JNull
  | JBool bool
  | JNumber rat
  | JString string
  | JArray "js_value list"
  | JObject "(string \<times> js_value) list"

type_synonym js_object = "(string \<times> js_value) list"

text \<open>Reading a property (\<open>undefined\<close> when the object has none of that name).\<close>

definition get_property :: "string \<Rightarrow> js_object \<Rightarrow> js_value" where
  "get_property k obj = (case map_of obj k of None \<Rightarrow> JUndefined | Some v \<Rightarrow> v)"

text \<open>
  Writing a property, as an object literal or a spread does: an existing property keeps
  its place and takes the new value, a new one goes to the end.
\<close>

fun set_property :: "string \<Rightarrow> js_value \<Rightarrow> js_object \<Rightarrow> js_object" where
  "set_property k v [] = [(k, v)]"
| "set_property k v ((k', v') # ps) =
     (if k' = k then (k, v) # ps else (k', v') # set_property k v ps)"

section \<open>JSON.parse\<close>

text \<open>
  \<open>JSON.parse\<close> is a builtin of the language. The functions of the source that call
  it take the parser as a parameter, \<open>None\<close> standing for the \<open>SyntaxError\<close> it
  throws; what is proved of them holds for every parser. For concrete runs, the parser
  below reads the JSON grammar by recursive descent. Characters are bytes, a number is
  the rational its digits denote, and the recursion is bounded by the length of the
  text, which every nesting and every element of a text uses up.
\<close>

definition is_ws :: "char \<Rightarrow> bool" where
  "is_ws c = (c = CHR '' '' \<or> c = CHR 0x09 \<or> c = CHR 0x0A \<or> c = CHR 0x0D)"

definition skip_ws :: "string \<Rightarrow> string" where
  "skip_ws s = dropWhile is_ws s"

definition is_digit :: "char \<Rightarrow> bool" where
  "is_digit c = (c \<in> set ''0123456789'')"

definition digit_value :: "char \<Rightarrow> nat" where
  "digit_value c = (case map_of (zip ''0123456789'' [0, 1, 2, 3, 4, 5, 6, 7, 8, 9]) c of
                      Some d \<Rightarrow> d | None \<Rightarrow> 0)"

definition digits_value :: "string \<Rightarrow> nat" where
  "digits_value ds = foldl (\<lambda>a d. 10 * a + digit_value d) 0 ds"

fun strip_prefix :: "string \<Rightarrow> string \<Rightarrow> string option" where
  "strip_prefix [] s = Some s"
| "strip_prefix (p # ps) [] = None"
| "strip_prefix (p # ps) (c # cs) = (if p = c then strip_prefix ps cs else None)"

text \<open>
  A number: \<open>-?(0|[1-9][0-9]*)(.[0-9]+)?([eE][+-]?[0-9]+)?\<close>. After a leading zero the
  integer part ends.
\<close>

definition parse_number :: "string \<Rightarrow> (js_value \<times> string) option" where
  "parse_number s =
     (let negative = (s \<noteq> [] \<and> hd s = CHR ''-'');
          s1 = (if negative then tl s else s);
          intDigits = (if s1 \<noteq> [] \<and> hd s1 = CHR ''0'' then ''0'' else takeWhile is_digit s1);
          s2 = drop (length intDigits) s1;
          hasFraction = (s2 \<noteq> [] \<and> hd s2 = CHR ''.'');
          fracDigits = (if hasFraction then takeWhile is_digit (tl s2) else []);
          s3 = (if hasFraction then drop (length fracDigits) (tl s2) else s2);
          hasExponent = (s3 \<noteq> [] \<and> (hd s3 = CHR ''e'' \<or> hd s3 = CHR ''E''));
          s4 = (if hasExponent then tl s3 else s3);
          expNegative = (hasExponent \<and> s4 \<noteq> [] \<and> hd s4 = CHR ''-'');
          s5 = (if hasExponent \<and> s4 \<noteq> [] \<and> (hd s4 = CHR ''-'' \<or> hd s4 = CHR ''+'')
                then tl s4 else s4);
          expDigits = (if hasExponent then takeWhile is_digit s5 else []);
          s6 = drop (length expDigits) s5;
          mantissa = (of_nat (digits_value intDigits) :: rat)
                       + of_nat (digits_value fracDigits) / 10 ^ length fracDigits;
          scaled = (if expNegative then mantissa / 10 ^ digits_value expDigits
                    else mantissa * 10 ^ digits_value expDigits)
      in if intDigits = [] \<or> (hasFraction \<and> fracDigits = []) \<or> (hasExponent \<and> expDigits = [])
         then None
         else Some (JNumber (if negative then - scaled else scaled), s6))"

text \<open>
  The characters of a string after its opening quote, up to the closing quote. A control
  character ends the parse. The escape \<open>\u\<close> with four hexadecimal digits gives the
  bytes of the code in UTF-8 (each half of a surrogate pair on its own).
\<close>

definition utf8_bytes :: "nat \<Rightarrow> string" where
  "utf8_bytes cp =
     (if cp < 128 then [char_of cp]
      else if cp < 2048 then [char_of (192 + cp div 64), char_of (128 + cp mod 64)]
      else [char_of (224 + cp div 4096), char_of (128 + (cp div 64) mod 64),
            char_of (128 + cp mod 64)])"

definition hex_value :: "char \<Rightarrow> nat option" where
  "hex_value c =
     map_of (zip ''0123456789abcdefABCDEF''
               [0, 1, 2, 3, 4, 5, 6, 7, 8, 9, 10, 11, 12, 13, 14, 15, 10, 11, 12, 13, 14, 15]) c"

definition simple_escape :: "char \<Rightarrow> char option" where
  "simple_escape c =
     map_of [(CHR 0x22, CHR 0x22), (CHR 0x5C, CHR 0x5C), (CHR ''/'', CHR ''/''),
             (CHR ''b'', CHR 0x08), (CHR ''f'', CHR 0x0C), (CHR ''n'', CHR 0x0A),
             (CHR ''r'', CHR 0x0D), (CHR ''t'', CHR 0x09)] c"

fun parse_string_body :: "string \<Rightarrow> string \<Rightarrow> (string \<times> string) option" where
  "parse_string_body acc [] = None"
| "parse_string_body acc [c] = (if c = CHR 0x22 then Some (acc, []) else None)"
| "parse_string_body acc (c # d # cs) =
     (if c = CHR 0x22 then Some (acc, d # cs)
      else if c = CHR 0x5C then
        (if d = CHR ''u'' then
           (case cs of
              h1 # h2 # h3 # h4 # rest \<Rightarrow>
                (case (hex_value h1, hex_value h2, hex_value h3, hex_value h4) of
                   (Some a, Some b, Some x, Some y) \<Rightarrow>
                     parse_string_body (acc @ utf8_bytes (4096 * a + 256 * b + 16 * x + y)) rest
                 | _ \<Rightarrow> None)
            | _ \<Rightarrow> None)
         else (case simple_escape d of
                 Some e \<Rightarrow> parse_string_body (acc @ [e]) cs
               | None \<Rightarrow> None))
      else if (of_char c :: nat) < 32 then None
      else parse_string_body (acc @ [c]) (d # cs))"

text \<open>
  Values, the elements of an array after its opening bracket, and the members of an
  object after its opening brace. A key that comes twice keeps its place and takes the
  later value.
\<close>

fun parse_value :: "nat \<Rightarrow> string \<Rightarrow> (js_value \<times> string) option"
  and parse_elements :: "nat \<Rightarrow> string \<Rightarrow> js_value list \<Rightarrow> (js_value \<times> string) option"
  and parse_members :: "nat \<Rightarrow> string \<Rightarrow> js_object \<Rightarrow> (js_value \<times> string) option" where
  "parse_value 0 s = None"
| "parse_value (Suc n) s =
     (case s of
        [] \<Rightarrow> None
      | c # cs \<Rightarrow>
          if c = CHR ''{'' then
            (if skip_ws cs \<noteq> [] \<and> hd (skip_ws cs) = CHR ''}''
             then Some (JObject [], tl (skip_ws cs))
             else parse_members n (skip_ws cs) [])
          else if c = CHR ''['' then
            (if skip_ws cs \<noteq> [] \<and> hd (skip_ws cs) = CHR '']''
             then Some (JArray [], tl (skip_ws cs))
             else parse_elements n (skip_ws cs) [])
          else if c = CHR 0x22 then
            map_option (\<lambda>(str, rest). (JString str, rest)) (parse_string_body [] cs)
          else if c = CHR ''t'' then map_option (Pair (JBool True)) (strip_prefix ''true'' s)
          else if c = CHR ''f'' then map_option (Pair (JBool False)) (strip_prefix ''false'' s)
          else if c = CHR ''n'' then map_option (Pair JNull) (strip_prefix ''null'' s)
          else if c = CHR ''-'' \<or> is_digit c then parse_number s
          else None)"
| "parse_elements 0 s acc = None"
| "parse_elements (Suc n) s acc =
     (case parse_value n s of
        None \<Rightarrow> None
      | Some (v, rest) \<Rightarrow>
          (case skip_ws rest of
             [] \<Rightarrow> None
           | d # rest' \<Rightarrow>
               if d = CHR '','' then parse_elements n (skip_ws rest') (acc @ [v])
               else if d = CHR '']'' then Some (JArray (acc @ [v]), rest')
               else None))"
| "parse_members 0 s acc = None"
| "parse_members (Suc n) s acc =
     (case s of
        [] \<Rightarrow> None
      | q # cs \<Rightarrow>
          if q \<noteq> CHR 0x22 then None
          else
            (case parse_string_body [] cs of
               None \<Rightarrow> None
             | Some (k, rest) \<Rightarrow>
                 (case skip_ws rest of
                    [] \<Rightarrow> None
                  | colon # rest1 \<Rightarrow>
                      if colon \<noteq> CHR '':'' then None
                      else
                        (case parse_value n (skip_ws rest1) of
                           None \<Rightarrow> None
                         | Some (v, rest2) \<Rightarrow>
                             (case skip_ws rest2 of
                                [] \<Rightarrow> None
                              | d # rest3 \<Rightarrow>
                                  if d = CHR '','' then
                                    parse_members n (skip_ws rest3) (set_property k v acc)
                                  else if d = CHR ''}'' then
                                    Some (JObject (set_property k v acc), rest3)
                                  else None)))))"

definition JSON_parse :: "string \<Rightarrow> js_value option" where
  "JSON_parse s =
     (case parse_value (Suc (length s)) (skip_ws s) of
        None \<Rightarrow> None
      | Some (v, rest) \<Rightarrow> if skip_ws rest = [] then Some v else None)"

section \<open>Model invocations (the LLMClient contract)\<close>

text \<open>
  A schema descriptor, as the source builds it with zod: strings, numbers, booleans,
  arrays, objects (fields in order) and \<open>describe\<close>, which attaches a description to a
  schema without changing what it accepts. \<open>shape\<close> forgets the descriptions.
\<close>

datatype zod =
    ZString
  | ZNumber
  | ZBoolean
  | ZArray zod
  | ZObject "(string \<times> zod) list"
  | ZDescribe zod string

fun shape :: "zod \<Rightarrow> zod" where
  "shape ZString = ZString"
| "shape ZNumber = ZNumber"
| "shape ZBoolean = ZBoolean"
| "shape (ZArray z) = ZArray (shape z)"
| "shape (ZObject fs) = ZObject (map (\<lambda>(k, z). (k, shape z)) fs)"
| "shape (ZDescribe z d) = shape z"

text \<open>
  Chat messages (\<open>ChatMessage\<close> of \<open>llm/LLMClient\<close>): a role and a content, which is a
  string or a list of parts. A part has a type tag and, optionally, a text, an image URL
  and an image source.
\<close>

record ImageSource =
  source_type :: "string option"
  media_type :: "string option"
  source_data :: "string option"

record ChatMessageContentPart =
  part_type :: string
  part_text :: "string option"
  image_url :: "string option"
  source :: "ImageSource option"

datatype ChatMessageContent =
    StringContent string
  | PartsContent "ChatMessageContentPart list"

datatype ChatMessage = ChatMessage (message_role: string) (content: ChatMessageContent)

text \<open>
  The options of \<open>createChatCompletion\<close>. \<open>response_model\<close> is the output-schema
  descriptor; a call that has one is a structured call. The image is a buffer of bytes.
\<close>

record response_model =
  name :: string
  schema :: zod

record ChatCompletionOptions =
  messages :: "ChatMessage list"
  response_model :: "response_model option"
  temperature :: "rat option"
  top_p :: "rat option"
  frequency_penalty :: "rat option"
  presence_penalty :: "rat option"
  maxTokens :: "nat option"
  image :: "nat list option"
  requestId :: string

text \<open>
  Token usage, and what a structured call returns: the data and, optionally, the usage.
  The records of counts are extensions of one another so that \<open>prompt_tokens\<close> and
  \<open>completion_tokens\<close> name the same field in a usage and in a result.
\<close>

record token_counts =
  prompt_tokens :: int
  completion_tokens :: int

record LLMUsage = token_counts +
  total_tokens :: int

record 'd LLMParsedResponse =
  data :: 'd
  usage :: "LLMUsage option"

text \<open>
  The client is outside the sources at hand (one implementation, the Google client, is
  modelled further down). It is a parameter: its \<open>type\<close> tag and its answer to a call,
  which may depend on the calls issued before (oldest first) and is an error when the
  client throws.
\<close>

record 'd LLMClient =
  client_type :: string
  createChatCompletion ::
    "ChatCompletionOptions list \<Rightarrow> ChatCompletionOptions \<Rightarrow> js_error + 'd LLMParsedResponse"

text \<open>
  The prompt builders of \<open>./prompt\<close> are outside the sources at hand: they are
  parameters.
\<close>

record prompts =
  buildExtractSystemPrompt :: "bool \<Rightarrow> bool option \<Rightarrow> string option \<Rightarrow> ChatMessage"
  buildExtractUserPrompt :: "string \<Rightarrow> string \<Rightarrow> bool \<Rightarrow> ChatMessage"
  buildRefineSystemPrompt :: ChatMessage
  buildRefineUserPrompt :: "string \<Rightarrow> js_object \<Rightarrow> js_object \<Rightarrow> ChatMessage"
  buildMetadataSystemPrompt :: ChatMessage
  buildMetadataPrompt :: "string \<Rightarrow> js_object \<Rightarrow> int \<Rightarrow> int \<Rightarrow> ChatMessage"
  buildObserveSystemPrompt :: "string option \<Rightarrow> bool option \<Rightarrow> ChatMessage"
  buildObserveUserMessage :: "string \<Rightarrow> string \<Rightarrow> bool option \<Rightarrow> ChatMessage"
  buildActSystemPrompt :: "string option \<Rightarrow> ChatMessage"
  buildActUserMessage :: "string \<Rightarrow> string \<Rightarrow> ChatMessage"

text \<open>
  What an inference function does to the world: the model invocations it issues (in
  order), the readings of \<open>Date.now()\<close> it takes, and the files it has
  \<open>inferenceLogUtils\<close> write when \<open>logInferenceToFile\<close> is set. Of a written file the
  directory and the prefix are kept, of a summary line the operation, the call and the
  three numbers; file names, timestamps and payloads are left out.
\<close>

datatype inference_file_event =
    WriteTimestampedTxtFile string string
  | AppendSummary string string int int int

record world =
  invocations :: "ChatCompletionOptions list"
  clock_reads :: nat
  inference_files :: "inference_file_event list"

text \<open>\<open>Date.now()\<close>: the clock gives the value of each reading, by its number.\<close>

definition Date_now :: "(nat \<Rightarrow> int) \<Rightarrow> world \<Rightarrow> int \<times> world" where
  "Date_now clock w = (clock (clock_reads w), w\<lparr>clock_reads := Suc (clock_reads w)\<rparr>)"

text \<open>
  \<open>const start = Date.now(); const r = await llmClient.createChatCompletion(...);
  const end = Date.now();\<close> The invocation is recorded whether the client answers or
  throws; when it throws, the error leaves the inference function at once.
\<close>

definition timed_completion ::
  "(nat \<Rightarrow> int) \<Rightarrow> 'd LLMClient \<Rightarrow> ChatCompletionOptions \<Rightarrow> world
     \<Rightarrow> (js_error + 'd LLMParsedResponse \<times> int) \<times> world" where
  "timed_completion clock llmClient opts w =
     (let (startTime, w1) = Date_now clock w;
          answer = createChatCompletion llmClient (invocations w1) opts;
          w2 = w1\<lparr>invocations := invocations w1 @ [opts]\<rparr>
      in case answer of
           Inl e \<Rightarrow> (Inl e, w2)
         | Inr r \<Rightarrow> (let (endTime, w3) = Date_now clock w2 in (Inr (r, endTime - startTime), w3)))"

text \<open>The options every inference function passes, but for messages, schema and name.\<close>

definition inference_options ::
  "ChatMessage list \<Rightarrow> string \<Rightarrow> zod \<Rightarrow> string \<Rightarrow> ChatCompletionOptions" where
  "inference_options msgs modelName sch reqId =
     \<lparr>messages = msgs,
      response_model = Some \<lparr>name = modelName, schema = sch\<rparr>,
      temperature = Some (1 / 10), top_p = Some 1,
      frequency_penalty = Some 0, presence_penalty = Some 0,
      maxTokens = None, image = None, requestId = reqId\<rparr>"

text \<open>\<open>usage?.prompt_tokens ?? 0\<close> and \<open>usage?.completion_tokens ?? 0\<close>.\<close>

definition usage_prompt_tokens :: "LLMUsage option \<Rightarrow> int" where
  "usage_prompt_tokens u = (case u of None \<Rightarrow> 0 | Some x \<Rightarrow> prompt_tokens x)"

definition usage_completion_tokens :: "LLMUsage option \<Rightarrow> int" where
  "usage_completion_tokens u = (case u of None \<Rightarrow> 0 | Some x \<Rightarrow> completion_tokens x)"

text \<open>The two blocks \<open>if (logInferenceToFile) { ... }\<close> around a call.\<close>

definition log_call_file :: "bool \<Rightarrow> string \<Rightarrow> string \<Rightarrow> world \<Rightarrow> world" where
  "log_call_file logInferenceToFile directory filePrefix w =
     (if logInferenceToFile
      then w\<lparr>inference_files := inference_files w @ [WriteTimestampedTxtFile directory filePrefix]\<rparr>
      else w)"

definition log_response_file ::
  "bool \<Rightarrow> string \<Rightarrow> string \<Rightarrow> string \<Rightarrow> string \<Rightarrow> LLMUsage option \<Rightarrow> int \<Rightarrow> world \<Rightarrow> world" where
  "log_response_file logInferenceToFile directory filePrefix operation inferenceType u timeMs w =
     (if logInferenceToFile
      then w\<lparr>inference_files := inference_files w @
             [WriteTimestampedTxtFile directory filePrefix,
              AppendSummary operation inferenceType (usage_prompt_tokens u)
                (usage_completion_tokens u) timeMs]\<rparr>
      else w)"

section \<open>Extraction inference (extract)\<close>

definition metadataSchema :: zod where
  "metadataSchema =
     ZObject
       [(''progress'',
         ZDescribe ZString ''progress of what has been extracted so far, as concise as possible''),
        (''completed'',
         ZDescribe ZBoolean
           (''true if the goal is now accomplished. Use this conservatively, ''
            @ ''only when sure that the goal has been completed.''))]"

text \<open>The options of the three calls of \<open>extract\<close>, as the source writes them in place.\<close>

definition extract_call_options ::
  "prompts \<Rightarrow> js_object LLMClient \<Rightarrow> string \<Rightarrow> string \<Rightarrow> zod \<Rightarrow> string \<Rightarrow> bool option
     \<Rightarrow> string option \<Rightarrow> ChatCompletionOptions" where
  "extract_call_options P llmClient instr domElements sch reqId isUsingTextExtract
       userProvidedInstructions =
     (let isUsingAnthropic = (client_type llmClient = ''anthropic'');
          extractCallMessages =
            [buildExtractSystemPrompt P isUsingAnthropic isUsingTextExtract userProvidedInstructions,
             buildExtractUserPrompt P instr domElements isUsingAnthropic]
      in inference_options extractCallMessages ''Extraction'' sch reqId)"

definition refine_call_options ::
  "prompts \<Rightarrow> string \<Rightarrow> js_object \<Rightarrow> js_object \<Rightarrow> zod \<Rightarrow> string \<Rightarrow> ChatCompletionOptions" where
  "refine_call_options P instr previouslyExtractedContent extractedData sch reqId =
     (let refineCallMessages =
            [buildRefineSystemPrompt P,
             buildRefineUserPrompt P instr previouslyExtractedContent extractedData]
      in inference_options refineCallMessages ''RefinedExtraction'' sch reqId)"

definition metadata_call_options ::
  "prompts \<Rightarrow> string \<Rightarrow> js_object \<Rightarrow> int \<Rightarrow> int \<Rightarrow> string \<Rightarrow> ChatCompletionOptions" where
  "metadata_call_options P instr refinedResponseData chunksSeen chunksTotal reqId =
     (let metadataCallMessages =
            [buildMetadataSystemPrompt P,
             buildMetadataPrompt P instr refinedResponseData chunksSeen chunksTotal]
      in inference_options metadataCallMessages ''Metadata'' metadataSchema reqId)"

text \<open>
  \<open>extract\<close>, written \<open>extract_inference\<close> (\<open>extract\<close> is a reserved word of
  Isabelle). The data of the three responses are objects. The result is the object
  literal of the \<open>return\<close>: the properties of the refined data, then \<open>metadata\<close>,
  \<open>prompt_tokens\<close>, \<open>completion_tokens\<close> and \<open>inference_time_ms\<close> written in this
  order. The parameters \<open>instruction\<close>, \<open>schema\<close> and \<open>requestId\<close> are written
  \<open>instr\<close>, \<open>sch\<close> and \<open>reqId\<close>; \<open>logger\<close> is only handed to the client.
\<close>

definition extract_inference ::
  "prompts \<Rightarrow> (nat \<Rightarrow> int) \<Rightarrow> js_object LLMClient \<Rightarrow> string \<Rightarrow> js_object \<Rightarrow> string \<Rightarrow> zod
     \<Rightarrow> int \<Rightarrow> int \<Rightarrow> string \<Rightarrow> bool option \<Rightarrow> string option \<Rightarrow> bool \<Rightarrow> world
     \<Rightarrow> (js_error + js_object) \<times> world" where
  "extract_inference P clock llmClient instr previouslyExtractedContent domElements sch chunksSeen
       chunksTotal reqId isUsingTextExtract userProvidedInstructions logInferenceToFile w0 =
     (let w1 = log_call_file logInferenceToFile ''extract_summary'' ''extract_call'' w0
      in case timed_completion clock llmClient
                (extract_call_options P llmClient instr domElements sch reqId isUsingTextExtract
                   userProvidedInstructions) w1 of
           (Inl e, w2) \<Rightarrow> (Inl e, w2)
         | (Inr (extractionResponse, extractTimeMs), w2) \<Rightarrow>
       (let extractedData = data extractionResponse;
            extractUsage = usage extractionResponse;
            w3 = log_response_file logInferenceToFile ''extract_summary'' ''extract_response''
                   ''extract'' ''extract'' extractUsage extractTimeMs w2;
            w4 = log_call_file logInferenceToFile ''extract_summary'' ''refine_call'' w3
        in case timed_completion clock llmClient
                  (refine_call_options P instr previouslyExtractedContent extractedData sch reqId)
                  w4 of
             (Inl e, w5) \<Rightarrow> (Inl e, w5)
           | (Inr (refinedResponse, refineTimeMs), w5) \<Rightarrow>
       (let refinedResponseData = data refinedResponse;
            refinedResponseUsage = usage refinedResponse;
            w6 = log_response_file logInferenceToFile ''extract_summary'' ''refine_response''
                   ''extract'' ''refine'' refinedResponseUsage refineTimeMs w5;
            w7 = log_call_file logInferenceToFile ''extract_summary'' ''metadata_call'' w6
        in case timed_completion clock llmClient
                  (metadata_call_options P instr refinedResponseData chunksSeen chunksTotal reqId)
                  w7 of
             (Inl e, w8) \<Rightarrow> (Inl e, w8)
           | (Inr (metadataResponse, metadataTimeMs), w8) \<Rightarrow>
       (let metadataResponseCompleted = get_property ''completed'' (data metadataResponse);
            metadataResponseProgress = get_property ''progress'' (data metadataResponse);
            metadataResponseUsage = usage metadataResponse;
            w9 = log_response_file logInferenceToFile ''extract_summary'' ''metadata_response''
                   ''extract'' ''metadata'' metadataResponseUsage metadataTimeMs w8;
            sumPromptTokens =
              usage_prompt_tokens extractUsage + usage_prompt_tokens refinedResponseUsage
                + usage_prompt_tokens metadataResponseUsage;
            sumCompletionTokens =
              usage_completion_tokens extractUsage + usage_completion_tokens refinedResponseUsage
                + usage_completion_tokens metadataResponseUsage;
            sumInferenceTimeMs = extractTimeMs + refineTimeMs + metadataTimeMs
        in (Inr (set_property ''inference_time_ms'' (JNumber (of_int sumInferenceTimeMs))
                  (set_property ''completion_tokens'' (JNumber (of_int sumCompletionTokens))
                    (set_property ''prompt_tokens'' (JNumber (of_int sumPromptTokens))
                      (set_property ''metadata''
                         (JObject [(''completed'', metadataResponseCompleted),
                                   (''progress'', metadataResponseProgress)])
                         refinedResponseData)))),
            w9)))))"

section \<open>Observe inference (observe)\<close>

text \<open>
  The elements of a response and of a result. The source's fields \<open>method\<close> and
  \<open>arguments\<close> are written \<open>el_method\<close> and \<open>el_arguments\<close>; both are optional in a
  response, and a result without action has neither.
\<close>

record element_core =
  elementId :: int
  description :: string

record observe_element = element_core +
  el_method :: "string option"
  el_arguments :: "string list option"

datatype ObserveResponse = ObserveResponse (response_elements: "observe_element list option")

record inference_totals = token_counts +
  inference_time_ms :: int

record observe_result = inference_totals +
  elements :: "observe_element list"

definition truthy :: "bool option \<Rightarrow> bool" where
  "truthy b = (b = Some True)"

definition observeSchema :: "bool option \<Rightarrow> bool \<Rightarrow> zod" where
  "observeSchema isUsingAccessibilityTree returnAction =
     ZObject
       [(''elements'',
         ZDescribe
           (ZArray
              (ZObject
                 ([(''elementId'', ZDescribe ZNumber ''the number of the element''),
                   (''description'',
                    ZDescribe ZString
                      (if truthy isUsingAccessibilityTree
                       then ''a description of the accessible element and its purpose''
                       else ''a description of the element and what it is relevant for''))]
                  @ (if returnAction
                     then [(''method'',
                            ZDescribe ZString
                              (''the candidate method/action to interact with the element. ''
                               @ ''Select one of the available Playwright interaction methods.'')),
                           (''arguments'',
                            ZArray
                              (ZDescribe ZString
                                 (''the arguments to pass to the method. For example, for a click, ''
                                  @ ''the arguments are empty, but for a fill, the arguments are ''
                                  @ ''the value to fill in.'')))]
                     else []))))
           (if truthy isUsingAccessibilityTree
            then ''an array of accessible elements that match the instruction''
            else ''an array of elements that match the instruction''))]"

text \<open>\<open>String(x)\<close> of an optional string: \<open>undefined\<close> is written out.\<close>

definition String_of :: "string option \<Rightarrow> string" where
  "String_of s = (case s of None \<Rightarrow> ''undefined'' | Some x \<Rightarrow> x)"

text \<open>The function mapped over the elements of the response.\<close>

definition parse_observed_element :: "bool \<Rightarrow> observe_element \<Rightarrow> observe_element" where
  "parse_observed_element returnAction el =
     (if returnAction
      then \<lparr>elementId = elementId el, description = description el,
            el_method = Some (String_of (el_method el)), el_arguments = el_arguments el\<rparr>
      else \<lparr>elementId = elementId el, description = description el,
            el_method = None, el_arguments = None\<rparr>)"

definition observe_call_options ::
  "prompts \<Rightarrow> string \<Rightarrow> string \<Rightarrow> string \<Rightarrow> bool option \<Rightarrow> string option \<Rightarrow> bool
     \<Rightarrow> ChatCompletionOptions" where
  "observe_call_options P instr domElements reqId isUsingAccessibilityTree
       userProvidedInstructions returnAction =
     (let msgs =
            [buildObserveSystemPrompt P userProvidedInstructions isUsingAccessibilityTree,
             buildObserveUserMessage P instr domElements isUsingAccessibilityTree]
      in inference_options msgs ''Observation''
           (observeSchema isUsingAccessibilityTree returnAction) reqId)"

definition observe ::
  "prompts \<Rightarrow> (nat \<Rightarrow> int) \<Rightarrow> ObserveResponse LLMClient \<Rightarrow> string \<Rightarrow> string \<Rightarrow> string
     \<Rightarrow> bool option \<Rightarrow> string option \<Rightarrow> bool \<Rightarrow> bool \<Rightarrow> world
     \<Rightarrow> (js_error + observe_result) \<times> world" where
  "observe P clock llmClient instr domElements reqId isUsingAccessibilityTree
       userProvidedInstructions returnAction logInferenceToFile w0 =
     (let w1 = log_call_file logInferenceToFile ''observe_summary'' ''observe_call'' w0
      in case timed_completion clock llmClient
                (observe_call_options P instr domElements reqId isUsingAccessibilityTree
                   userProvidedInstructions returnAction) w1 of
           (Inl e, w2) \<Rightarrow> (Inl e, w2)
         | (Inr (rawResponse, usageTimeMs), w2) \<Rightarrow>
             (let observeData = data rawResponse;
                  observeUsage = usage rawResponse;
                  promptTokens = usage_prompt_tokens observeUsage;
                  completionTokens = usage_completion_tokens observeUsage;
                  w3 = log_response_file logInferenceToFile ''observe_summary''
                         ''observe_response'' ''observe'' ''observe'' observeUsage usageTimeMs w2;
                  parsedElements =
                    (case response_elements observeData of
                       None \<Rightarrow> []
                     | Some els \<Rightarrow> map (parse_observed_element returnAction) els)
              in (Inr \<lparr>prompt_tokens = promptTokens, completion_tokens = completionTokens,
                       inference_time_ms = usageTimeMs, elements = parsedElements\<rparr>,
                  w3)))"

section \<open>Act inference (actInference)\<close>




definition actSchema :: zod where
  "actSchema =
     ZObject
       [(''element'',
         ZObject
           [(''elementId'', ZDescribe ZNumber ''the number of the element''),
            (''description'',
             ZDescribe ZString ''a description of the accessible element and its purpose''),
            (''method'',
             ZDescribe ZString
               (''the candidate method/action to interact with the element. ''
                @ ''Select one of the available Playwright interaction methods.'')),
            (''arguments'',
             ZArray
               (ZDescribe ZString
                  (''the arguments to pass to the method. For example, for a click, ''
                   @ ''the arguments are empty, but for a fill, the arguments are ''
                   @ ''the value to fill in.'')))])]"



section \<open>A concrete environment for running the inference functions\<close>

text \<open>
  Prompt builders that put the instruction into a message, a clock that advances 250 ms
  per reading, an empty world, and clients that answer from a script.
\<close>

definition example_prompts :: prompts where
  "example_prompts =
     \<lparr>buildExtractSystemPrompt = (\<lambda>anthropic textExtract upi.
         ChatMessage ''system'' (StringContent ''extract'')),
      buildExtractUserPrompt = (\<lambda>instr domEls anthropic.
         ChatMessage ''user'' (StringContent (instr @ '' / '' @ domEls))),
      buildRefineSystemPrompt = ChatMessage ''system'' (StringContent ''refine''),
      buildRefineUserPrompt = (\<lambda>instr previous extracted.
         ChatMessage ''user'' (StringContent (instr @ '' / '' @ concat (map fst extracted)))),
      buildMetadataSystemPrompt = ChatMessage ''system'' (StringContent ''metadata''),
      buildMetadataPrompt = (\<lambda>instr refined chunksSeen chunksTotal.
         ChatMessage ''user'' (StringContent (instr @ '' / '' @ concat (map fst refined)))),
      buildObserveSystemPrompt = (\<lambda>upi accessibility.
         ChatMessage ''system'' (StringContent ''observe'')),
      buildObserveUserMessage = (\<lambda>instr domEls accessibility.
         ChatMessage ''user'' (StringContent (instr @ '' / '' @ domEls))),
      buildActSystemPrompt = (\<lambda>upi. ChatMessage ''system'' (StringContent ''act'')),
      buildActUserMessage = (\<lambda>instr tree.
         ChatMessage ''user'' (StringContent (instr @ '' / '' @ tree)))\<rparr>"

definition example_clock :: "nat \<Rightarrow> int" where
  "example_clock n = 1000 + 250 * int n"

definition empty_world :: world where
  "empty_world = \<lparr>invocations = [], clock_reads = 0, inference_files = []\<rparr>"

text \<open>A client for \<open>extract\<close>: it answers by the name of the response model.\<close>

definition scripted_extract_client :: "js_object LLMClient" where
  "scripted_extract_client =
     \<lparr>client_type = ''openai'',
      createChatCompletion = (\<lambda>issued opts.
        (case response_model opts of
           None \<Rightarrow> Inl (Error ''no response model'')
         | Some rm \<Rightarrow>
             if name rm = ''Extraction'' then
               Inr \<lparr>data = [(''titles'', JArray [JString ''A''])],
                    usage = Some \<lparr>prompt_tokens = 100, completion_tokens = 10,
                                  total_tokens = 110\<rparr>\<rparr>
             else if name rm = ''RefinedExtraction'' then
               Inr \<lparr>data = [(''titles'', JArray [JString ''A'', JString ''B''])],
                    usage = Some \<lparr>prompt_tokens = 200, completion_tokens = 20,
                                  total_tokens = 220\<rparr>\<rparr>
             else if name rm = ''Metadata'' then
               Inr \<lparr>data = [(''progress'', JString ''two titles''), (''completed'', JBool True)],
                    usage = None\<rparr>
             else Inl (Error ''unknown response model'')))\<rparr>"

text \<open>Clients for \<open>observe\<close> and \<open>actInference\<close> that give one fixed answer.\<close>

definition fixed_client :: "js_error + 'd LLMParsedResponse \<Rightarrow> 'd LLMClient" where
  "fixed_client answer = \<lparr>client_type = ''openai'', createChatCompletion = (\<lambda>issued opts. answer)\<rparr>"

text \<open>
  The same script with the refined data of one's choosing, and the script with a call,
  named by its response model, that throws.
\<close>

definition scripted_client_refining :: "js_object \<Rightarrow> js_object LLMClient" where
  "scripted_client_refining refined =
     \<lparr>client_type = ''openai'',
      createChatCompletion = (\<lambda>issued opts.
        (case response_model opts of
           None \<Rightarrow> Inl (Error ''no response model'')
         | Some rm \<Rightarrow>
             if name rm = ''Extraction'' then
               Inr \<lparr>data = [(''titles'', JArray [JString ''A''])], usage = None\<rparr>
             else if name rm = ''RefinedExtraction'' then
               Inr \<lparr>data = refined, usage = None\<rparr>
             else if name rm = ''Metadata'' then
               Inr \<lparr>data = [(''progress'', JString ''one title''), (''completed'', JBool False)],
                    usage = None\<rparr>
             else Inl (Error ''unknown response model'')))\<rparr>"

definition scripted_client_throwing_on :: "string \<Rightarrow> js_error \<Rightarrow> js_object LLMClient" where
  "scripted_client_throwing_on call err =
     \<lparr>client_type = ''openai'',
      createChatCompletion = (\<lambda>issued opts.
        if map_option name (response_model opts) = Some call then Inl err
        else createChatCompletion scripted_extract_client issued opts)\<rparr>"

section \<open>Google client: createChatCompletion\<close>

subsection \<open>mapMessagesToGoogleContent\<close>

definition is_ascii_letter :: "char \<Rightarrow> bool" where
  "is_ascii_letter c = (c \<in> set ''abcdefghijklmnopqrstuvwxyzABCDEFGHIJKLMNOPQRSTUVWXYZ'')"

text \<open>
  The match of \<open>/^data:image\/([a-zA-Z]+);base64,(.*)$/\<close>: the two groups. The dot does
  not match a line terminator (of these, line feed and carriage return are modelled).
\<close>

definition match_data_url :: "string \<Rightarrow> (string \<times> string) option" where
  "match_data_url url =
     (case strip_prefix ''data:image/'' url of
        None \<Rightarrow> None
      | Some r \<Rightarrow>
          (let fmt = takeWhile is_ascii_letter r
           in if fmt = [] then None
              else (case strip_prefix '';base64,'' (dropWhile is_ascii_letter r) of
                      None \<Rightarrow> None
                    | Some d \<Rightarrow>
                        if CHR 0x0A \<in> set d \<or> CHR 0x0D \<in> set d then None
                        else Some (fmt, d))))"

text \<open>The parts one part of a message contributes: one or none.\<close>

definition map_part :: "ChatMessageContentPart \<Rightarrow> Part list" where
  "map_part p =
     (if part_text p \<noteq> None \<and> part_text p \<noteq> Some [] then
        (case part_text p of Some t \<Rightarrow> [TextPart t] | None \<Rightarrow> [])
      else
        (case image_url p of
           Some url \<Rightarrow>
             if prefix ''data:'' url then
               (case match_data_url url of
                  Some (fmt, base64Data) \<Rightarrow> [InlineDataPart (''image/'' @ fmt) base64Data]
                | None \<Rightarrow> [])
             else [FileDataPart ''image/jpeg'' url]
         | None \<Rightarrow>
             (case source p of
                Some src \<Rightarrow>
                  (case source_data src of
                     Some d \<Rightarrow>
                       if source_type src = Some ''image''
                       then [InlineDataPart
                               (case media_type src of Some m \<Rightarrow> m | None \<Rightarrow> ''image/jpeg'') d]
                       else []
                   | None \<Rightarrow> [])
              | None \<Rightarrow> [])))"

definition mapMessagesToGoogleContent :: "ChatMessage list \<Rightarrow> Content list" where
  "mapMessagesToGoogleContent msgs =
     map (\<lambda>msg.
            \<lparr>role = (if message_role msg = ''assistant'' then ''model'' else ''user''),
             parts = (case content msg of
                        StringContent s \<Rightarrow> [TextPart s]
                      | PartsContent ps \<Rightarrow> concat (map map_part ps))\<rparr>)
         msgs"

subsection \<open>The image of the options\<close>

text \<open>
  \<open>Buffer.toString("base64")\<close> is a builtin of the platform: the encoding is a
  parameter. The image goes, as a data URL, to the end of the last user message.
\<close>

definition add_image ::
  "(nat list \<Rightarrow> string) \<Rightarrow> nat list option \<Rightarrow> ChatMessage list \<Rightarrow> ChatMessage list" where
  "add_image toBase64 img msgs =
     (case img of
        None \<Rightarrow> msgs
      | Some buffer \<Rightarrow>
          (case filter (\<lambda>i. message_role (msgs ! i) = ''user'') [0..<length msgs] of
             [] \<Rightarrow> msgs
           | i0 # idxs \<Rightarrow>
               (let lastUserMsgIndex = last (i0 # idxs);
                    lastUserMsg = msgs ! lastUserMsgIndex;
                    imgContent =
                      \<lparr>part_type = ''image'', part_text = None,
                       image_url = Some (''data:image/jpeg;base64,'' @ toBase64 buffer),
                       source = None\<rparr>
                in msgs[lastUserMsgIndex :=
                     ChatMessage (message_role lastUserMsg)
                       (PartsContent
                          (case content lastUserMsg of
                             StringContent s \<Rightarrow>
                               [\<lparr>part_type = ''text'', part_text = Some s, image_url = None,
                                 source = None\<rparr>, imgContent]
                           | PartsContent ps \<Rightarrow> ps @ [imgContent]))])))"

subsection \<open>The call of the SDK and its result\<close>

text \<open>
  The request \<open>generateContent\<close> is given (the safety settings, four constants, are
  left out), and what comes back: candidates with their parts, finish reason and safety
  ratings, the block reason of the prompt feedback, and the usage metadata.
  \<open>generateContent\<close> itself is the network: a parameter, with \<open>Inl\<close> the error it
  throws.
\<close>

record GenerationConfig =
  config_temperature :: "rat option"
  topP :: "rat option"
  maxOutputTokens :: "nat option"

record GenerateContentRequest =
  request_model :: string
  request_contents :: "Content list"
  generationConfig :: GenerationConfig

record Candidate =
  content_parts :: "Part list option"
  finishReason :: "string option"
  safetyRatings :: "string option"

record UsageMetadata =
  promptTokenCount :: "nat option"
  candidatesTokenCount :: "nat option"
  totalTokenCount :: "nat option"

record GenerateContentResult =
  candidates :: "Candidate list option"
  blockReason :: "string option"
  usageMetadata :: "UsageMetadata option"

text \<open>
  What the client returns: for a structured call \<open>{data, usage}\<close>, otherwise a chat
  completion with its one choice.
\<close>

record LLMResponse =
  response_id :: string
  object_tag :: string
  created :: int
  response_model_name :: string
  choice_content :: string
  choice_finish_reason :: string
  response_usage :: LLMUsage

datatype completion =
    Structured "js_value LLMParsedResponse"
  | Plain LLMResponse

definition error_message :: "js_error \<Rightarrow> string" where
  "error_message e =
     (case e of Error m \<Rightarrow> m | StagehandError m \<Rightarrow> m | SyntaxError m \<Rightarrow> m
      | TypeError m \<Rightarrow> m | SchemaValidationError m \<Rightarrow> m)"

text \<open>A number written in decimal (\<open>toString()\<close>).\<close>

function decimal :: "nat \<Rightarrow> string" where
  "decimal n =
     (if n < 10 then [char_of (48 + n)] else decimal (n div 10) @ [char_of (48 + n mod 10)])"
  by pat_completeness auto
termination
  by (relation "measure id") auto

definition google_request ::
  "string \<Rightarrow> string option \<Rightarrow> (nat list \<Rightarrow> string) \<Rightarrow> ChatCompletionOptions
     \<Rightarrow> GenerateContentRequest" where
  "google_request modelName userProvidedInstructions toBase64 opts =
     (let messagesWithImage = add_image toBase64 (image opts) (messages opts);
          googleContents =
            prepareGoogleContent (mapMessagesToGoogleContent messagesWithImage)
              userProvidedInstructions
      in \<lparr>request_model = modelName, request_contents = googleContents,
          generationConfig =
            \<lparr>config_temperature = temperature opts, topP = top_p opts,
             maxOutputTokens = maxTokens opts\<rparr>\<rparr>)"

definition first_candidate :: "GenerateContentResult \<Rightarrow> Candidate option" where
  "first_candidate response =
     (case candidates response of None \<Rightarrow> None | Some [] \<Rightarrow> None | Some (c # cs) \<Rightarrow> Some c)"

text \<open>\<open>candidate?.content?.parts\<close> when it has a first part, else \<open>None\<close>.\<close>

definition candidate_parts :: "GenerateContentResult \<Rightarrow> Part list option" where
  "candidate_parts response =
     (case first_candidate response of
        None \<Rightarrow> None
      | Some c \<Rightarrow> (case content_parts c of
                     None \<Rightarrow> None | Some [] \<Rightarrow> None | Some (p # ps) \<Rightarrow> Some (p # ps)))"

definition response_text :: "Part list \<Rightarrow> string" where
  "response_text ps = concat (map (\<lambda>p. case p of TextPart t \<Rightarrow> t | _ \<Rightarrow> []) ps)"

definition count_or_zero :: "nat option \<Rightarrow> int" where
  "count_or_zero n = (case n of None \<Rightarrow> 0 | Some k \<Rightarrow> int k)"

definition usage_data :: "GenerateContentResult \<Rightarrow> LLMUsage" where
  "usage_data response =
     (case usageMetadata response of
        None \<Rightarrow> \<lparr>prompt_tokens = 0, completion_tokens = 0, total_tokens = 0\<rparr>
      | Some u \<Rightarrow>
          \<lparr>prompt_tokens = count_or_zero (promptTokenCount u),
           completion_tokens = count_or_zero (candidatesTokenCount u),
           total_tokens = count_or_zero (totalTokenCount u)\<rparr>)"

text \<open>
  The data the client makes up when the text of a structured response is not JSON:
  \<open>{completed: responseText, progress: 1.0}\<close>.
\<close>

definition text_fallback :: "string \<Rightarrow> js_value" where
  "text_fallback responseText =
     JObject [(''completed'', JString responseText), (''progress'', JNumber 1)]"

text \<open>
  The message of the error thrown inside the \<open>try\<close> block when the first candidate
  has no first part; a missing reason is written \<open>undefined\<close>, as a template
  literal writes it.
\<close>

definition no_content_failure :: "GenerateContentResult \<Rightarrow> string" where
  "no_content_failure response =
     ''Google API call failed or returned no content. FinishReason: ''
       @ String_of (case first_candidate response of None \<Rightarrow> None | Some c \<Rightarrow> finishReason c)
       @ '', BlockReason: '' @ String_of (blockReason response)"

definition google_log :: "string \<Rightarrow> nat \<Rightarrow> LogLine" where
  "google_log msg lvl = \<lparr>category = Some ''google'', message = msg, level = Some lvl\<rparr>"

text \<open>
  \<open>GoogleClient.createChatCompletion\<close>: the lines it gives the logger, and what it
  returns or throws. Parameters besides the options: the model name and the user's
  instructions (fields of the client), the base64 encoding, the SDK call, the JSON
  parser and the reading of the clock for \<open>created\<close>.
\<close>

definition GoogleClient_createChatCompletion ::
  "string \<Rightarrow> string option \<Rightarrow> (nat list \<Rightarrow> string)
     \<Rightarrow> (GenerateContentRequest \<Rightarrow> js_error + GenerateContentResult)
     \<Rightarrow> (string \<Rightarrow> js_value option) \<Rightarrow> int \<Rightarrow> ChatCompletionOptions
     \<Rightarrow> LogLine list \<times> (js_error + completion)" where
  "GoogleClient_createChatCompletion modelName userProvidedInstructions toBase64 generateContent
       parse now opts =
     (let started = [google_log ''creating chat completion'' 2]
      in case generateContent (google_request modelName userProvidedInstructions toBase64 opts) of
           Inl err \<Rightarrow>
             (started @ [google_log (''Error creating chat completion: '' @ error_message err) 0],
              Inl (StagehandError (''Google API Error: '' @ error_message err)))
         | Inr response \<Rightarrow>
             (case candidate_parts response of
                None \<Rightarrow>
                  (let finish = String_of (case first_candidate response of
                                             None \<Rightarrow> None | Some c \<Rightarrow> finishReason c);
                       block = String_of (blockReason response);
                       ratings = (case first_candidate response of
                                    None \<Rightarrow> ''N/A''
                                  | Some c \<Rightarrow> (case safetyRatings c of
                                                 None \<Rightarrow> ''N/A'' | Some r \<Rightarrow> r));
                       failure = no_content_failure response
                   in (started @
                       [google_log (''No content received. FinishReason: '' @ finish
                                      @ '', BlockReason: '' @ block
                                      @ '', SafetyRatings: '' @ ratings) 0,
                        google_log (''Error creating chat completion: '' @ failure) 0],
                       Inl (StagehandError (''Google API Error: '' @ failure))))
              | Some ps \<Rightarrow>
                  (let responseText = response_text ps;
                       usageData = usage_data response
                   in case response_model opts of
                        Some rm \<Rightarrow>
                          (case parse responseText of
                             Some parsedData \<Rightarrow>
                               (started @ [google_log ''chat completion with schema successful'' 1],
                                Inr (Structured \<lparr>data = parsedData, usage = Some usageData\<rparr>))
                           | None \<Rightarrow>
                               (started @
                                [google_log
                                   ''chat completion with schema successful (using text fallback)''
                                   1],
                                Inr (Structured \<lparr>data = text_fallback responseText,
                                                  usage = Some usageData\<rparr>)))
                      | None \<Rightarrow>
                          (started @ [google_log ''chat completion successful'' 1],
                           Inr (Plain
                             \<lparr>response_id =
                                (case usageMetadata response of
                                   None \<Rightarrow> requestId opts
                                 | Some u \<Rightarrow> (case promptTokenCount u of
                                               None \<Rightarrow> requestId opts
                                             | Some n \<Rightarrow> decimal n)),
                              object_tag = ''chat.completion'',
                              created = now div 1000,
                              response_model_name = modelName,
                              choice_content = responseText,
                              choice_finish_reason =
                                (case first_candidate response of
                                   None \<Rightarrow> ''stop''
                                 | Some c \<Rightarrow> (case finishReason c of
                                               None \<Rightarrow> ''stop''
                                             | Some f \<Rightarrow> if f = [] then ''stop'' else f)),
                              response_usage = usageData\<rparr>)))))"

text \<open>For concrete runs: a provider that answers every request with one text.\<close>

definition answers_with :: "string \<Rightarrow> GenerateContentRequest \<Rightarrow> js_error + GenerateContentResult" where
  "answers_with responseText request =
     Inr \<lparr>candidates = Some [\<lparr>content_parts = Some [TextPart responseText],
                              finishReason = Some ''STOP'', safetyRatings = None\<rparr>],
          blockReason = None,
          usageMetadata = Some \<lparr>promptTokenCount = Some 40, candidatesTokenCount = Some 8,
                                totalTokenCount = Some 48\<rparr>\<rparr>"

definition no_base64 :: "nat list \<Rightarrow> string" where
  "no_base64 buffer = []"

text \<open>For concrete runs: a provider whose call throws, and one that answers without content.\<close>

definition provider_throws :: "string \<Rightarrow> GenerateContentRequest \<Rightarrow> js_error + GenerateContentResult" where
  "provider_throws msg request = Inl (Error msg)"

definition answers_blocked :: "GenerateContentRequest \<Rightarrow> js_error + GenerateContentResult" where
  "answers_blocked request =
     Inr \<lparr>candidates = None, blockReason = Some ''SAFETY'', usageMetadata = None\<rparr>"

section \<open>Log forwarding (src/lib/index.ts, Stagehand.log)\<close>



















section \<open>Theorems\<close>

subsection \<open>Metrics\<close>

lemma kindCounters_updateMetrics_same:
  "kindCounters k (updateMetrics k p c t m) =
     (fst (kindCounters k m) + p, fst (snd (kindCounters k m)) + c,
      snd (snd (kindCounters k m)) + t)"
  by (cases k) (simp_all add: updateTotalMetrics_def)

lemma kindCounters_updateMetrics_other:
  "k' \<noteq> k \<Longrightarrow> kindCounters k' (updateMetrics k p c t m) = kindCounters k' m"
  by (cases k; cases k') (simp_all add: updateTotalMetrics_def)

lemma totalCounters_updateMetrics:
  "totalCounters (updateMetrics k p c t m) =
     (totalPromptTokens m + p, totalCompletionTokens m + c, totalInferenceTimeMs m + t)"
  by (cases k) (simp_all add: updateTotalMetrics_def totalCounters_def)

lemma allCounters_updateMetrics_mono:
  assumes "0 \<le> p" "0 \<le> c" "0 \<le> t"
  shows "list_all2 (\<le>) (allCounters m) (allCounters (updateMetrics k p c t m))"
  using assms by (cases k) (simp_all add: updateTotalMetrics_def allCounters_def)

text \<open>
  Claim C3. For an operation kind \<open>k\<close> among act, extract and observe and non-negative
  deltas \<open>p\<close>, \<open>c\<close>, \<open>t\<close>, \<open>updateMetrics\<close> adds exactly \<open>(p, c, t)\<close> to the three
  counters of \<open>k\<close> and to the three totals, leaves the counters of the two other kinds
  as they were, and no counter of the twelve ends below its old value.
\<close>

theorem updateMetrics_additive:
  assumes "0 \<le> p" and "0 \<le> c" and "0 \<le> t"
  shows "kindCounters k (updateMetrics k p c t m) =
           (fst (kindCounters k m) + p, fst (snd (kindCounters k m)) + c,
            snd (snd (kindCounters k m)) + t)
       \<and> totalCounters (updateMetrics k p c t m) =
           (totalPromptTokens m + p, totalCompletionTokens m + c, totalInferenceTimeMs m + t)
       \<and> (\<forall>k'. k' \<noteq> k \<longrightarrow> kindCounters k' (updateMetrics k p c t m) = kindCounters k' m)
       \<and> list_all2 (\<le>) (allCounters m) (allCounters (updateMetrics k p c t m))"
  using assms
  by (simp add: kindCounters_updateMetrics_same kindCounters_updateMetrics_other
      totalCounters_updateMetrics allCounters_updateMetrics_mono)

theorem updateMetrics_additive_witness:
  "kindCounters EXTRACT (updateMetrics EXTRACT 120 30 900 (updateMetrics ACT 7 5 40 initialMetrics))
     = (120, 30, 900)
   \<and> totalCounters (updateMetrics EXTRACT 120 30 900 (updateMetrics ACT 7 5 40 initialMetrics))
     = (127, 35, 940)
   \<and> kindCounters ACT (updateMetrics EXTRACT 120 30 900 (updateMetrics ACT 7 5 40 initialMetrics))
     = (7, 5, 40)
   \<and> kindCounters OBSERVE (updateMetrics EXTRACT 120 30 900 (updateMetrics ACT 7 5 40 initialMetrics))
     = (0, 0, 0)"
  using updateMetrics_additive [of 120 30 900 EXTRACT "updateMetrics ACT 7 5 40 initialMetrics"]
  by (simp add: updateTotalMetrics_def initialMetrics_def totalCounters_def)

subsection \<open>Agent\<close>

text \<open>
  Claim C8. \<open>execute\<close> treats a string \<open>i\<close> exactly as the options object
  \<open>{instruction: i}\<close>. With an options object whose instruction is absent or empty it
  throws \<open>Error("Instruction is required for agent execution")\<close> and the handler is not
  run (the outcome does not depend on the handler and the state is untouched). In every
  other case the outcome is the handler's, run on the options object itself; for a
  non-empty string that object is \<open>{instruction: i}\<close>.
\<close>

theorem agent_execute_dispatch:
  "agent_execute h (InstructionString i) s
     = agent_execute h (OptionsObject \<lparr>instruction = Some i, otherOptions = []\<rparr>) s
   \<and> (instruction opts = None \<or> instruction opts = Some [] \<longrightarrow>
        agent_execute h (OptionsObject opts) s
          = (Inl (Error ''Instruction is required for agent execution''), s))
   \<and> (instruction opts \<noteq> None \<and> instruction opts \<noteq> Some [] \<longrightarrow>
        agent_execute h (OptionsObject opts) s = h opts s)
   \<and> (i \<noteq> [] \<longrightarrow>
        agent_execute h (InstructionString i) s
          = h \<lparr>instruction = Some i, otherOptions = []\<rparr> s)"
  by (auto simp: agent_execute_def falsy_string_def split: option.splits)

theorem agent_execute_dispatch_witness:
  "agent_execute recording_handler (InstructionString ''buy milk'') []
     = (Inr 1, [\<lparr>instruction = Some ''buy milk'', otherOptions = ([] :: (string \<times> nat) list)\<rparr>])
   \<and> agent_execute recording_handler
        (OptionsObject \<lparr>instruction = Some ''buy milk'', otherOptions = [(''maxSteps'', 5 :: nat)]\<rparr>) []
     = (Inr 1, [\<lparr>instruction = Some ''buy milk'', otherOptions = [(''maxSteps'', 5)]\<rparr>])
   \<and> agent_execute recording_handler
        (OptionsObject \<lparr>instruction = Some [], otherOptions = [(''maxSteps'', 5 :: nat)]\<rparr>) []
     = (Inl (Error ''Instruction is required for agent execution''), [])
   \<and> agent_execute recording_handler
        (OptionsObject \<lparr>instruction = None, otherOptions = [(''maxSteps'', 5 :: nat)]\<rparr>) []
     = (Inl (Error ''Instruction is required for agent execution''), [])"
  using
    agent_execute_dispatch [of recording_handler "''buy milk''" "[] :: (nat AgentExecuteOptions) list"
      "\<lparr>instruction = Some ''buy milk'', otherOptions = [(''maxSteps'', 5 :: nat)]\<rparr>"]
    agent_execute_dispatch [of recording_handler "''buy milk''" "[] :: (nat AgentExecuteOptions) list"
      "\<lparr>instruction = Some [], otherOptions = [(''maxSteps'', 5 :: nat)]\<rparr>"]
    agent_execute_dispatch [of recording_handler "''buy milk''" "[] :: (nat AgentExecuteOptions) list"
      "\<lparr>instruction = None, otherOptions = [(''maxSteps'', 5 :: nat)]\<rparr>"]
  by (simp add: recording_handler_def)

subsection \<open>Google client: message preparation\<close>

lemma role_runs_nonempty: "r \<in> set (role_runs cs) \<Longrightarrow> r \<noteq> []"
  by (induction cs arbitrary: r) (auto split: list.splits if_splits)

lemma role_runs_Nil_iff [simp]: "role_runs cs = [] \<longleftrightarrow> cs = []"
  by (cases cs) (auto split: list.splits)

lemma concat_role_runs: "concat (role_runs cs) = cs"
  by (induction cs) (auto split: list.splits)

lemma role_runs_same_role:
  "r \<in> set (role_runs cs) \<Longrightarrow> c \<in> set r \<Longrightarrow> role c = role (hd r)"
  by (induction cs arbitrary: r c) (auto split: list.splits if_splits)

lemma role_runs_adjacent_differ: "distinct_adj (map (\<lambda>r. role (hd r)) (role_runs cs))"
  by (induction cs) (auto split: list.splits)

lemma last_last_role_runs: "cs \<noteq> [] \<Longrightarrow> last (last (role_runs cs)) = last cs"
proof (induction cs)
  case Nil
  then show ?case by simp
next
  case (Cons a cs)
  show ?case
  proof (cases "cs = []")
    case True
    then show ?thesis by simp
  next
    case False
    then obtain r rs where rr: "role_runs cs = r # rs" by (cases "role_runs cs") auto
    have rne: "r \<noteq> []" using role_runs_nonempty[of r cs] rr by simp
    show ?thesis using Cons False rr rne by (auto split: list.splits)
  qed
qed

lemma role_last_run: "cs \<noteq> [] \<Longrightarrow> role (hd (last (role_runs cs))) = role (last cs)"
proof -
  assume ne: "cs \<noteq> []"
  have mem: "last (role_runs cs) \<in> set (role_runs cs)" using ne by simp
  have rne: "last (role_runs cs) \<noteq> []" using role_runs_nonempty[OF mem] .
  have "role (last (last (role_runs cs))) = role (hd (last (role_runs cs)))"
    using role_runs_same_role[OF mem, of "last (last (role_runs cs))"] rne by simp
  then show ?thesis using last_last_role_runs[OF ne] by simp
qed

lemma role_runs_snoc:
  "role_runs (cs @ [c]) =
     (if cs = [] then [[c]]
      else if role (last cs) = role c then butlast (role_runs cs) @ [last (role_runs cs) @ [c]]
      else role_runs cs @ [[c]])"
proof (induction cs)
  case Nil
  then show ?case by simp
next
  case (Cons a cs)
  show ?case
  proof (cases "cs = []")
    case True
    then show ?thesis by simp
  next
    case False
    then obtain r rs where rr: "role_runs cs = r # rs" by (cases "role_runs cs") auto
    have rne: "r \<noteq> []" using role_runs_nonempty[of r cs] rr by simp
    show ?thesis using Cons False rr rne 
      by (auto split: list.splits simp: butlast_append)
  qed
qed

lemma merged_entry_single: "merged_entry [c] = c"
  by (simp add: merged_entry_def)

lemma merged_entry_snoc:
  "r \<noteq> [] \<Longrightarrow> merged_entry (r @ [c]) = (merged_entry r)\<lparr>parts := parts (merged_entry r) @ parts c\<rparr>"
  by (simp add: merged_entry_def)

lemma merge_step_runs:
  "merge_step (map merged_entry (role_runs xs)) c = map merged_entry (role_runs (xs @ [c]))"
proof (cases "xs = []")
  case True
  then show ?thesis by (simp add: merge_step_def merged_entry_def)
next
  case False
  have mem: "last (role_runs xs) \<in> set (role_runs xs)" using False by simp
  have rne: "last (role_runs xs) \<noteq> []" using role_runs_nonempty[OF mem] .
  have lastrole: "role (last (map merged_entry (role_runs xs))) = role (last xs)"
    using False role_last_run[OF False] by (simp add: last_map merged_entry_def)
  show ?thesis
    using False lastrole rne
    by (simp add: merge_step_def role_runs_snoc map_butlast[symmetric] last_map merged_entry_snoc
        merged_entry_single)
qed

lemma foldl_merge_step_runs:
  "foldl merge_step (map merged_entry (role_runs xs)) cs = map merged_entry (role_runs (xs @ cs))"
proof (induction cs arbitrary: xs)
  case Nil
  then show ?case by simp
next
  case (Cons c cs)
  have "foldl merge_step (map merged_entry (role_runs xs)) (c # cs)
        = foldl merge_step (map merged_entry (role_runs (xs @ [c]))) cs"
    by (simp add: merge_step_runs)
  also have "\<dots> = map merged_entry (role_runs ((xs @ [c]) @ cs))" by (rule Cons.IH)
  finally show ?case by simp
qed

lemma prepareGoogleContent_runs:
  "prepareGoogleContent contents systemInstruction =
     map merged_entry (role_runs (with_system_instruction contents systemInstruction))"
proof -
  have start0: "foldl merge_step [] cs = map merged_entry (role_runs cs)" for cs
    using foldl_merge_step_runs[of "[]" cs] by simp
  have start1: "foldl merge_step [c] cs = map merged_entry (role_runs (c # cs))" for c cs
    using foldl_merge_step_runs[of "[c]" cs] by (simp add: merged_entry_single)
  show ?thesis
  proof (cases contents)
    case Nil
    then show ?thesis
      by (simp add: prepareGoogleContent_def with_system_instruction_def merged_entry_single
          split: option.splits)
  next
    case (Cons c cs)
    then show ?thesis
      by (simp add: prepareGoogleContent_def with_system_instruction_def start0 start1
          del: foldl_Cons role_runs.simps split: option.splits)
  qed
qed

lemma prepareGoogleContent_alternates:
  "distinct_adj (map role (prepareGoogleContent contents systemInstruction))"
proof -
  have "map role (map merged_entry (role_runs cs)) = map (\<lambda>r. role (hd r)) (role_runs cs)" for cs
    by (simp add: merged_entry_def)
  then show ?thesis
    by (simp only: prepareGoogleContent_runs role_runs_adjacent_differ)
qed

lemma role_runs_maximal:
  "concat (role_runs cs) = cs
   \<and> (\<forall>r \<in> set (role_runs cs). r \<noteq> [] \<and> (\<forall>c \<in> set r. role c = role (hd r)))
   \<and> distinct_adj (map (\<lambda>r. role (hd r)) (role_runs cs))"
proof (intro conjI ballI)
  show "concat (role_runs cs) = cs" by (rule concat_role_runs)
next
  fix r assume "r \<in> set (role_runs cs)"
  then show "r \<noteq> []" by (rule role_runs_nonempty)
next
  fix r c assume "r \<in> set (role_runs cs)" "c \<in> set r"
  then show "role c = role (hd r)" by (rule role_runs_same_role)
next
  show "distinct_adj (map (\<lambda>r. role (hd r)) (role_runs cs))"
    by (rule role_runs_adjacent_differ)
qed

text \<open>
  Claim C10. For every message sequence and optional system instruction, no two
  adjacent entries of the result of \<open>prepareGoogleContent\<close> have the same role, and the
  result is the sequence with the system instruction put first (into the first entry
  when it is a user message, as an entry of its own otherwise), each maximal run of
  consecutive same-role entries merged into one entry whose parts are the
  concatenation, in order, of the parts of the run.
\<close>

theorem prepareGoogleContent_merges_runs:
  "distinct_adj (map role (prepareGoogleContent contents systemInstruction))
   \<and> prepareGoogleContent contents systemInstruction
       = map merged_entry (role_runs (with_system_instruction contents systemInstruction))"
  by (rule conjI [OF prepareGoogleContent_alternates prepareGoogleContent_runs])

theorem prepareGoogleContent_merges_runs_witness:
  "prepareGoogleContent
     [\<lparr>role = ''user'', parts = [TextPart ''a'']\<rparr>, \<lparr>role = ''user'', parts = [TextPart ''b'']\<rparr>,
      \<lparr>role = ''model'', parts = [TextPart ''c'']\<rparr>, \<lparr>role = ''model'', parts = [TextPart ''d'']\<rparr>,
      \<lparr>role = ''user'', parts = [TextPart ''e'']\<rparr>]
     (Some ''be brief'')
   = [\<lparr>role = ''user'',
       parts = [TextPart (''be brief'' @ [CHR 0x0A, CHR 0x0A]), TextPart ''a'', TextPart ''b'']\<rparr>,
      \<lparr>role = ''model'', parts = [TextPart ''c'', TextPart ''d'']\<rparr>,
      \<lparr>role = ''user'', parts = [TextPart ''e'']\<rparr>]
   \<and> prepareGoogleContent
     [\<lparr>role = ''model'', parts = [TextPart ''c'']\<rparr>, \<lparr>role = ''user'', parts = [TextPart ''e'']\<rparr>]
     (Some ''be brief'')
   = [\<lparr>role = ''user'', parts = [TextPart ''be brief'']\<rparr>,
      \<lparr>role = ''model'', parts = [TextPart ''c'']\<rparr>,
      \<lparr>role = ''user'', parts = [TextPart ''e'']\<rparr>]"
  using
    prepareGoogleContent_merges_runs [of
      "[\<lparr>role = ''user'', parts = [TextPart ''a'']\<rparr>, \<lparr>role = ''user'', parts = [TextPart ''b'']\<rparr>,
        \<lparr>role = ''model'', parts = [TextPart ''c'']\<rparr>, \<lparr>role = ''model'', parts = [TextPart ''d'']\<rparr>,
        \<lparr>role = ''user'', parts = [TextPart ''e'']\<rparr>]" "Some ''be brief''"]
    prepareGoogleContent_merges_runs [of
      "[\<lparr>role = ''model'', parts = [TextPart ''c'']\<rparr>, \<lparr>role = ''user'', parts = [TextPart ''e'']\<rparr>]"
      "Some ''be brief''"]
  by (simp add: with_system_instruction_def merged_entry_def)

subsection \<open>Variable placeholders\<close>

lemma indexOf_Some_iff:
  "indexOf str p = Some n \<longleftrightarrow> occurs_at p str n \<and> (\<forall>i<n. \<not> occurs_at p str i)"
proof (induction str arbitrary: n)
  case Nil
  then show ?case by (auto simp: occurs_at_def)
next
  case (Cons c cs)
  show ?case
  proof (cases "prefix p (c # cs)")
    case True
    then show ?thesis by (auto simp: occurs_at_def)
  next
    case False
    have shift: "occurs_at p (c # cs) (Suc i) = occurs_at p cs i" for i
      by (simp add: occurs_at_def)
    have zero: "\<not> occurs_at p (c # cs) 0" using False by (simp add: occurs_at_def)
    show ?thesis
    proof (cases n)
      case 0
      then show ?thesis using False zero by auto
    next
      case (Suc m)
      have "(\<forall>i<Suc m. \<not> occurs_at p (c # cs) i) \<longleftrightarrow> (\<forall>i<m. \<not> occurs_at p cs i)"
        using zero shift by (metis less_Suc_eq_0_disj Suc_less_eq)
      then show ?thesis using False Suc Cons.IH[of m] shift by auto
    qed
  qed
qed

lemma indexOf_None_iff: "indexOf str p = None \<longleftrightarrow> (\<forall>i. \<not> occurs_at p str i)"
proof
  assume n: "indexOf str p = None"
  show "\<forall>i. \<not> occurs_at p str i"
  proof (rule ccontr)
    assume "\<not> (\<forall>i. \<not> occurs_at p str i)"
    then obtain i where "occurs_at p str i" by blast
    then obtain j where "occurs_at p str j" "\<forall>k<j. \<not> occurs_at p str k"
      using exists_least_iff[of "occurs_at p str"] by blast
    then have "indexOf str p = Some j" by (simp add: indexOf_Some_iff)
    with n show False by simp
  qed
next
  assume "\<forall>i. \<not> occurs_at p str i"
  then show "indexOf str p = None"
    by (cases "indexOf str p") (auto simp: indexOf_Some_iff)
qed

lemma GetSubstitution_plain:
  "CHR ''$'' \<notin> set template \<Longrightarrow> GetSubstitution matched preceding following template = template"
  by (induction matched preceding following template rule: GetSubstitution.induct) auto

lemma String_replace_absent:
  "\<forall>i. \<not> occurs_at p str i \<Longrightarrow> String_replace str p v = str"
  by (simp add: String_replace_def indexOf_None_iff[symmetric])

lemma String_replace_first:
  assumes "\<forall>i<length pre. \<not> occurs_at p (pre @ p @ post) i"
  shows "String_replace (pre @ p @ post) p v
           = pre @ GetSubstitution p pre post v @ post"
proof -
  have "occurs_at p (pre @ p @ post) (length pre)" by (simp add: occurs_at_def)
  with assms have "indexOf (pre @ p @ post) p = Some (length pre)"
    by (simp add: indexOf_Some_iff)
  then show ?thesis by (simp add: String_replace_def)
qed

lemma fillInVariables_Cons:
  "fillInVariables up t ((k, v) # vs) = fillInVariables up (String_replace t (placeholder up k) v) vs"
  by (simp add: fillInVariables_def)

lemma fillInVariables_single:
  "fillInVariables up t [(k, v)] = String_replace t (placeholder up k) v"
  by (simp add: fillInVariables_def)

text \<open>
  Claim C9, as amended. Whatever \<open>toUpperCase\<close> does to the keys, \<open>fillInVariables\<close>
  handles the entries of the variables map one after another, each on the text the
  entries before it have produced. An entry whose placeholder \<open><|KEY|>\<close> (key
  upper-cased) does not occur in that text leaves it as it is. Otherwise the first
  occurrence of the placeholder, and only that one, is replaced: the text before it and
  the text after it, later occurrences included, are kept, and what is put in is the
  value as \<open>replace\<close> expands it, which for a value without a dollar sign is the value
  itself.
\<close>

theorem fillInVariables_entry_by_entry:
  "fillInVariables up t [] = t
   \<and> fillInVariables up t ((k, v) # vs)
       = fillInVariables up (fillInVariables up t [(k, v)]) vs
   \<and> ((\<forall>i. \<not> occurs_at (placeholder up k) t i) \<longrightarrow> fillInVariables up t [(k, v)] = t)
   \<and> ((\<forall>i<length pre. \<not> occurs_at (placeholder up k) (pre @ placeholder up k @ post) i) \<longrightarrow>
        fillInVariables up (pre @ placeholder up k @ post) [(k, v)]
          = pre @ GetSubstitution (placeholder up k) pre post v @ post)
   \<and> (CHR ''$'' \<notin> set v \<longrightarrow> GetSubstitution (placeholder up k) pre post v = v)"
proof (intro conjI impI)
  show "fillInVariables up t [] = t" by (simp add: fillInVariables_def)
next
  show "fillInVariables up t ((k, v) # vs)
          = fillInVariables up (fillInVariables up t [(k, v)]) vs"
    by (simp add: fillInVariables_def)
next
  assume "\<forall>i. \<not> occurs_at (placeholder up k) t i"
  then show "fillInVariables up t [(k, v)] = t"
    by (simp add: fillInVariables_single String_replace_absent)
next
  assume "\<forall>i<length pre. \<not> occurs_at (placeholder up k) (pre @ placeholder up k @ post) i"
  then show "fillInVariables up (pre @ placeholder up k @ post) [(k, v)]
               = pre @ GetSubstitution (placeholder up k) pre post v @ post"
    by (simp only: fillInVariables_single String_replace_first)
next
  assume "CHR ''$'' \<notin> set v"
  then show "GetSubstitution (placeholder up k) pre post v = v"
    by (rule GetSubstitution_plain)
qed

theorem fillInVariables_entry_by_entry_witness:
  "fillInVariables toUpperCase_ascii ''go to <|SITE|>, then <|SITE|>/login''
     [(''user'', ''ann''), (''site'', ''a.org'')]
     = ''go to a.org, then <|SITE|>/login''"
proof -
  let ?t = "''go to <|SITE|>, then <|SITE|>/login''"
  let ?up = toUpperCase_ascii
  have absent: "\<forall>i. \<not> occurs_at (placeholder ?up ''user'') ?t i"
    unfolding indexOf_None_iff[symmetric]
    by (simp add: placeholder_def toUpperCase_ascii_def toUpperCase_ascii_char_def)
  have "indexOf (''go to '' @ placeholder ?up ''site'' @ '', then <|SITE|>/login'')
          (placeholder ?up ''site'') = Some (length ''go to '')"
    by (simp add: placeholder_def toUpperCase_ascii_def toUpperCase_ascii_char_def)
  then have first: "\<forall>i<length ''go to ''.
      \<not> occurs_at (placeholder ?up ''site'')
          (''go to '' @ placeholder ?up ''site'' @ '', then <|SITE|>/login'') i"
    unfolding indexOf_Some_iff by blast
  have split: "?t = ''go to '' @ placeholder ?up ''site'' @ '', then <|SITE|>/login''"
    by (simp add: placeholder_def toUpperCase_ascii_def toUpperCase_ascii_char_def)
  have dollar: "CHR ''$'' \<notin> set ''a.org''" by simp
  have step1: "fillInVariables ?up ?t [(''user'', ''ann''), (''site'', ''a.org'')]
                 = fillInVariables ?up (fillInVariables ?up ?t [(''user'', ''ann'')])
                     [(''site'', ''a.org'')]"
    using fillInVariables_entry_by_entry [of ?up ?t "''user''" "''ann''" "[(''site'', ''a.org'')]"]
    by blast
  have step2: "fillInVariables ?up ?t [(''user'', ''ann'')] = ?t"
    using fillInVariables_entry_by_entry [of ?up ?t "''user''" "''ann''"] absent by blast
  have step3: "fillInVariables ?up (''go to '' @ placeholder ?up ''site'' @ '', then <|SITE|>/login'')
                 [(''site'', ''a.org'')] = ''go to '' @ ''a.org'' @ '', then <|SITE|>/login''"
    using fillInVariables_entry_by_entry [of ?up _ "''site''" "''a.org''" _ "''go to ''"
        "'', then <|SITE|>/login''"] first dollar by metis
  have step3': "fillInVariables ?up ?t [(''site'', ''a.org'')] = ''go to a.org, then <|SITE|>/login''"
    using step3 unfolding split[symmetric] by simp
  show ?thesis by (simp only: step1 step2 step3')
qed

text \<open>
  Claim C9 as stated fails: two keys with the same upper-case form replace two
  successive occurrences of the one placeholder, so a later occurrence does not stay as
  it was; and a key whose placeholder is not in the text still has an effect when the
  value of an earlier key brings the placeholder in.
\<close>

theorem fillInVariables_later_occurrence_counterexample:
  "placeholder toUpperCase_ascii ''x'' = placeholder toUpperCase_ascii ''X''
   \<and> fillInVariables toUpperCase_ascii ''<|X|>-<|X|>'' [(''x'', ''1''), (''X'', ''2'')] = ''1-2''
   \<and> fillInVariables toUpperCase_ascii ''<|A|>'' [(''B'', ''z'')] = ''<|A|>''
   \<and> fillInVariables toUpperCase_ascii ''<|A|>'' [(''A'', ''<|B|>''), (''B'', ''z'')] = ''z''"
  by (simp add: fillInVariables_def String_replace_def placeholder_def toUpperCase_ascii_def
      toUpperCase_ascii_char_def)

text \<open>
  A value with a dollar pattern is not put in as it is: \<open>replace\<close> expands the
  pattern.
\<close>

lemma fillInVariables_dollar_patterns:
  "fillInVariables toUpperCase_ascii ''pw: <|PASSWORD|>'' [(''password'', ''pa$$word'')]
     = ''pw: pa$word''
   \<and> fillInVariables toUpperCase_ascii ''say <|WORD|>!'' [(''word'', ''$&'')] = ''say <|WORD|>!''"
  by (simp add: fillInVariables_def String_replace_def placeholder_def toUpperCase_ascii_def
      toUpperCase_ascii_char_def)

subsection \<open>Inference functions\<close>

lemma log_call_file_fields [simp]:
  "invocations (log_call_file b d p w) = invocations w"
  "clock_reads (log_call_file b d p w) = clock_reads w"
  by (simp_all add: log_call_file_def)

lemma log_response_file_fields [simp]:
  "invocations (log_response_file b d p k i u t w) = invocations w"
  "clock_reads (log_response_file b d p k i u t w) = clock_reads w"
  by (simp_all add: log_response_file_def)

lemma timed_completion_Inl:
  "createChatCompletion c (invocations w) opts = Inl e \<Longrightarrow>
   timed_completion clock c opts w =
     (Inl e, w\<lparr>invocations := invocations w @ [opts], clock_reads := Suc (clock_reads w)\<rparr>)"
  by (simp add: timed_completion_def Date_now_def)

lemma timed_completion_Inr:
  "createChatCompletion c (invocations w) opts = Inr r \<Longrightarrow>
   timed_completion clock c opts w =
     (Inr (r, clock (Suc (clock_reads w)) - clock (clock_reads w)),
      w\<lparr>invocations := invocations w @ [opts], clock_reads := Suc (Suc (clock_reads w))\<rparr>)"
  by (simp add: timed_completion_def Date_now_def)

lemma observe_Inl:
  assumes "createChatCompletion c (invocations w0)
             (observe_call_options P instr domEls reqId ax upi ra) = Inl e"
  shows "fst (observe P clock c instr domEls reqId ax upi ra lg w0) = Inl e"
    and "invocations (snd (observe P clock c instr domEls reqId ax upi ra lg w0))
           = invocations w0 @ [observe_call_options P instr domEls reqId ax upi ra]"
  using assms by (simp_all add: observe_def timed_completion_Inl)

lemma observe_Inr:
  assumes "createChatCompletion c (invocations w0)
             (observe_call_options P instr domEls reqId ax upi ra) = Inr r"
  shows "fst (observe P clock c instr domEls reqId ax upi ra lg w0) =
           Inr \<lparr>prompt_tokens = usage_prompt_tokens (usage r),
                completion_tokens = usage_completion_tokens (usage r),
                inference_time_ms = clock (Suc (clock_reads w0)) - clock (clock_reads w0),
                elements = (case response_elements (data r) of
                              None \<Rightarrow> []
                            | Some els \<Rightarrow> map (parse_observed_element ra) els)\<rparr>"
    and "invocations (snd (observe P clock c instr domEls reqId ax upi ra lg w0))
           = invocations w0 @ [observe_call_options P instr domEls reqId ax upi ra]"
  using assms by (simp_all add: observe_def timed_completion_Inr Let_def)

text \<open>
  Claim C5. Whatever the client does, \<open>observe\<close> issues exactly one model invocation,
  a structured one (response model \<open>Observation\<close>): when the client throws, the error
  is passed on and nothing is retried. When the response has no \<open>elements\<close> field or
  an empty list of elements, \<open>observe\<close> returns normally with an empty list of elements.
\<close>

theorem observe_single_invocation:
  "invocations (snd (observe P clock c instr domEls reqId ax upi ra lg w0))
     = invocations w0 @ [observe_call_options P instr domEls reqId ax upi ra]
   \<and> response_model (observe_call_options P instr domEls reqId ax upi ra)
       = Some \<lparr>name = ''Observation'', schema = observeSchema ax ra\<rparr>
   \<and> (createChatCompletion c (invocations w0)
         (observe_call_options P instr domEls reqId ax upi ra) = Inr r
       \<and> (response_elements (data r) = None \<or> response_elements (data r) = Some []) \<longrightarrow>
       fst (observe P clock c instr domEls reqId ax upi ra lg w0) =
         Inr \<lparr>prompt_tokens = usage_prompt_tokens (usage r),
              completion_tokens = usage_completion_tokens (usage r),
              inference_time_ms = clock (Suc (clock_reads w0)) - clock (clock_reads w0),
              elements = []\<rparr>)
   \<and> (createChatCompletion c (invocations w0)
         (observe_call_options P instr domEls reqId ax upi ra) = Inl e \<longrightarrow>
       fst (observe P clock c instr domEls reqId ax upi ra lg w0) = Inl e)"
proof (intro conjI impI)
  show "invocations (snd (observe P clock c instr domEls reqId ax upi ra lg w0))
          = invocations w0 @ [observe_call_options P instr domEls reqId ax upi ra]"
    by (cases "createChatCompletion c (invocations w0)
                 (observe_call_options P instr domEls reqId ax upi ra)")
       (simp_all add: observe_Inl(2) observe_Inr(2))
next
  show "response_model (observe_call_options P instr domEls reqId ax upi ra)
          = Some \<lparr>name = ''Observation'', schema = observeSchema ax ra\<rparr>"
    by (simp add: observe_call_options_def inference_options_def)
next
  assume "createChatCompletion c (invocations w0)
            (observe_call_options P instr domEls reqId ax upi ra) = Inr r
          \<and> (response_elements (data r) = None \<or> response_elements (data r) = Some [])"
  then show "fst (observe P clock c instr domEls reqId ax upi ra lg w0) =
         Inr \<lparr>prompt_tokens = usage_prompt_tokens (usage r),
              completion_tokens = usage_completion_tokens (usage r),
              inference_time_ms = clock (Suc (clock_reads w0)) - clock (clock_reads w0),
              elements = []\<rparr>"
    by (auto simp: observe_Inr(1))
next
  assume "createChatCompletion c (invocations w0)
            (observe_call_options P instr domEls reqId ax upi ra) = Inl e"
  then show "fst (observe P clock c instr domEls reqId ax upi ra lg w0) = Inl e"
    by (rule observe_Inl(1))
qed

theorem observe_single_invocation_witness:
  "fst (observe example_prompts example_clock
          (fixed_client (Inr \<lparr>data = ObserveResponse None, usage = None\<rparr>))
          ''find the login button'' ''[1] link'' ''req-1'' None None False False empty_world)
     = Inr \<lparr>prompt_tokens = 0, completion_tokens = 0, inference_time_ms = 250, elements = []\<rparr>
   \<and> length (invocations (snd (observe example_prompts example_clock
          (fixed_client (Inr \<lparr>data = ObserveResponse None, usage = None\<rparr>))
          ''find the login button'' ''[1] link'' ''req-1'' None None False False empty_world))) = 1
   \<and> fst (observe example_prompts example_clock
          (fixed_client (Inl (StagehandError ''Google API Error: quota'')))
          ''find the login button'' ''[1] link'' ''req-1'' None None False False empty_world)
     = Inl (StagehandError ''Google API Error: quota'')
   \<and> length (invocations (snd (observe example_prompts example_clock
          (fixed_client (Inl (StagehandError ''Google API Error: quota'')))
          ''find the login button'' ''[1] link'' ''req-1'' None None False False empty_world))) = 1"
  using
    observe_single_invocation [of example_prompts example_clock
      "fixed_client (Inr \<lparr>data = ObserveResponse None, usage = None\<rparr>)"
      "''find the login button''" "''[1] link''" "''req-1''" None None False False empty_world
      "\<lparr>data = ObserveResponse None, usage = None\<rparr>"]
    observe_single_invocation [of example_prompts example_clock
      "fixed_client (Inl (StagehandError ''Google API Error: quota''))"
      "''find the login button''" "''[1] link''" "''req-1''" None None False False empty_world
      _ "StagehandError ''Google API Error: quota''"]
  by (simp add: fixed_client_def empty_world_def example_clock_def usage_prompt_tokens_def
      usage_completion_tokens_def)






subsection \<open>Extraction inference\<close>

text \<open>Reading a property after writing one, and the property names after a write.\<close>

lemma get_property_Cons:
  "get_property k [] = JUndefined"
  "get_property k ((k', v) # ps) = (if k = k' then v else get_property k ps)"
  by (simp_all add: get_property_def)

lemma get_property_set_property:
  "get_property k (set_property k' v obj) = (if k = k' then v else get_property k obj)"
  by (induction obj) (auto simp: get_property_def)

lemma keys_set_property:
  "fst ` set (set_property k v obj) = insert k (fst ` set obj)"
proof (induction obj)
  case Nil
  show ?case by simp
next
  case (Cons p ps)
  obtain k' v' where p: "p = (k', v')" by (cases p)
  show ?case
  proof (cases "k' = k")
    case True
    then show ?thesis using p by simp
  next
    case False
    then show ?thesis using p Cons.IH by (simp add: insert_commute)
  qed
qed

lemma call_names:
  "response_model (extract_call_options P c instr domEls sch reqId te upi)
     = Some \<lparr>name = ''Extraction'', schema = sch\<rparr>"
  "response_model (refine_call_options P instr prev extracted sch reqId)
     = Some \<lparr>name = ''RefinedExtraction'', schema = sch\<rparr>"
  "response_model (metadata_call_options P instr refined nseen chunks reqId)
     = Some \<lparr>name = ''Metadata'', schema = metadataSchema\<rparr>"
  by (simp_all add: extract_call_options_def refine_call_options_def metadata_call_options_def
      inference_options_def Let_def)

text \<open>
  The four ways a run of \<open>extract\<close> can go: the first call throws, the second, the
  third, or all three are answered.
\<close>

lemma extract_inference_first_throws:
  assumes "createChatCompletion c (invocations w0)
          (extract_call_options P c instr domEls sch reqId te upi) = Inl e"
  shows "fst (extract_inference P clock c instr prev domEls sch nseen chunks reqId te upi lg w0) = Inl e"
    and "invocations (snd (extract_inference P clock c instr prev domEls sch nseen chunks reqId te upi lg w0))
           = invocations w0 @ [extract_call_options P c instr domEls sch reqId te upi]"
  using assms by (simp_all add: extract_inference_def timed_completion_Inl timed_completion_Inr Let_def)

lemma extract_inference_second_throws:
  assumes "createChatCompletion c (invocations w0)
          (extract_call_options P c instr domEls sch reqId te upi) = Inr r1"
    and "createChatCompletion c
          (invocations w0 @ [extract_call_options P c instr domEls sch reqId te upi])
          (refine_call_options P instr prev (data r1) sch reqId) = Inl e"
  shows "fst (extract_inference P clock c instr prev domEls sch nseen chunks reqId te upi lg w0) = Inl e"
    and "invocations (snd (extract_inference P clock c instr prev domEls sch nseen chunks reqId te upi lg w0))
           = invocations w0 @ [extract_call_options P c instr domEls sch reqId te upi,
                               refine_call_options P instr prev (data r1) sch reqId]"
  using assms by (simp_all add: extract_inference_def timed_completion_Inl timed_completion_Inr Let_def)

lemma extract_inference_third_issued:
  assumes "createChatCompletion c (invocations w0)
          (extract_call_options P c instr domEls sch reqId te upi) = Inr r1"
    and "createChatCompletion c
          (invocations w0 @ [extract_call_options P c instr domEls sch reqId te upi])
          (refine_call_options P instr prev (data r1) sch reqId) = Inr r2"
  shows "invocations (snd (extract_inference P clock c instr prev domEls sch nseen chunks reqId te upi lg w0))
           = invocations w0 @ [extract_call_options P c instr domEls sch reqId te upi,
                               refine_call_options P instr prev (data r1) sch reqId,
                               metadata_call_options P instr (data r2) nseen chunks reqId]"
  using assms
  by (cases "createChatCompletion c
          (invocations w0 @ [extract_call_options P c instr domEls sch reqId te upi,
                             refine_call_options P instr prev (data r1) sch reqId])
          (metadata_call_options P instr (data r2) nseen chunks reqId)")
     (simp_all add: extract_inference_def timed_completion_Inl timed_completion_Inr Let_def)

lemma extract_inference_third_throws:
  assumes "createChatCompletion c (invocations w0)
          (extract_call_options P c instr domEls sch reqId te upi) = Inr r1"
    and "createChatCompletion c
          (invocations w0 @ [extract_call_options P c instr domEls sch reqId te upi])
          (refine_call_options P instr prev (data r1) sch reqId) = Inr r2"
    and "createChatCompletion c
          (invocations w0 @ [extract_call_options P c instr domEls sch reqId te upi,
                             refine_call_options P instr prev (data r1) sch reqId])
          (metadata_call_options P instr (data r2) nseen chunks reqId) = Inl e"
  shows "fst (extract_inference P clock c instr prev domEls sch nseen chunks reqId te upi lg w0) = Inl e"
  using assms by (simp add: extract_inference_def timed_completion_Inl timed_completion_Inr Let_def)

lemma extract_inference_answered:
  assumes "createChatCompletion c (invocations w0)
          (extract_call_options P c instr domEls sch reqId te upi) = Inr r1"
    and "createChatCompletion c
          (invocations w0 @ [extract_call_options P c instr domEls sch reqId te upi])
          (refine_call_options P instr prev (data r1) sch reqId) = Inr r2"
    and "createChatCompletion c
          (invocations w0 @ [extract_call_options P c instr domEls sch reqId te upi,
                             refine_call_options P instr prev (data r1) sch reqId])
          (metadata_call_options P instr (data r2) nseen chunks reqId) = Inr r3"
  shows "fst (extract_inference P clock c instr prev domEls sch nseen chunks reqId te upi lg w0) =
      Inr (set_property ''inference_time_ms''
          (JNumber (of_int
             ((clock (clock_reads w0 + 1) - clock (clock_reads w0))
              + (clock (clock_reads w0 + 3) - clock (clock_reads w0 + 2))
              + (clock (clock_reads w0 + 5) - clock (clock_reads w0 + 4)))))
          (set_property ''completion_tokens''
             (JNumber (of_int
                (usage_completion_tokens (usage r1) + usage_completion_tokens (usage r2)
                 + usage_completion_tokens (usage r3))))
             (set_property ''prompt_tokens''
                (JNumber (of_int
                   (usage_prompt_tokens (usage r1) + usage_prompt_tokens (usage r2)
                    + usage_prompt_tokens (usage r3))))
                (set_property ''metadata''
                   (JObject [(''completed'', get_property ''completed'' (data r3)),
                             (''progress'', get_property ''progress'' (data r3))])
                   (data r2)))))"
  using assms by (simp add: extract_inference_def timed_completion_Inl timed_completion_Inr Let_def eval_nat_numeral)

lemma extract_inference_total:
  assumes "\<forall>issued opts. \<exists>r. createChatCompletion c issued opts = Inr r"
  shows "\<exists>result. fst (extract_inference P clock c instr prev domEls sch nseen chunks reqId te upi lg w0) = Inr result"
proof -
  obtain r1 where c1: "createChatCompletion c (invocations w0)
          (extract_call_options P c instr domEls sch reqId te upi) = Inr r1"
    using assms by blast
  obtain r2 where c2: "createChatCompletion c
          (invocations w0 @ [extract_call_options P c instr domEls sch reqId te upi])
          (refine_call_options P instr prev (data r1) sch reqId) = Inr r2"
    using assms by blast
  obtain r3 where c3: "createChatCompletion c
          (invocations w0 @ [extract_call_options P c instr domEls sch reqId te upi,
                             refine_call_options P instr prev (data r1) sch reqId])
          (metadata_call_options P instr (data r2) nseen chunks reqId) = Inr r3"
    using assms by blast
  show ?thesis
    using extract_inference_answered [OF c1 c2 c3] by blast
qed

lemma example_extract_run:
  "fst (extract_inference example_prompts example_clock scripted_extract_client
          ''list the titles'' [] ''[1] h2 A [2] h2 B''
          (ZObject [(''titles'', ZArray ZString)]) 1 1 ''req-3'' None None False empty_world)
     = Inr [(''titles'', JArray [JString ''A'', JString ''B'']),
            (''metadata'', JObject [(''completed'', JBool True),
                                    (''progress'', JString ''two titles'')]),
            (''prompt_tokens'', JNumber 300),
            (''completion_tokens'', JNumber 30),
            (''inference_time_ms'', JNumber 750)]"
  by (simp add: extract_inference_def timed_completion_def Date_now_def Let_def
      extract_call_options_def refine_call_options_def metadata_call_options_def
      inference_options_def scripted_extract_client_def example_clock_def empty_world_def
      log_call_file_def log_response_file_def usage_prompt_tokens_def
      usage_completion_tokens_def get_property_def)

lemma example_extract_answers:
  "createChatCompletion scripted_extract_client issued
     (extract_call_options P c instr domEls sch reqId te upi)
     = Inr \<lparr>data = [(''titles'', JArray [JString ''A''])],
            usage = Some \<lparr>prompt_tokens = 100, completion_tokens = 10, total_tokens = 110\<rparr>\<rparr>"
  "createChatCompletion scripted_extract_client issued
     (refine_call_options P instr prev extracted sch reqId)
     = Inr \<lparr>data = [(''titles'', JArray [JString ''A'', JString ''B''])],
            usage = Some \<lparr>prompt_tokens = 200, completion_tokens = 20, total_tokens = 220\<rparr>\<rparr>"
  "createChatCompletion scripted_extract_client issued
     (metadata_call_options P instr refined nseen chunks reqId)
     = Inr \<lparr>data = [(''progress'', JString ''two titles''), (''completed'', JBool True)],
            usage = None\<rparr>"
  by (simp_all add: scripted_extract_client_def call_names)

text \<open>
  Claim C2, as amended. When the client answers the three calls, \<open>extract\<close> returns a
  result, having issued exactly three model invocations, all structured, in the order
  extract (\<open>Extraction\<close>), refine (\<open>RefinedExtraction\<close>), metadata (\<open>Metadata\<close>); and the
  \<open>prompt_tokens\<close>, \<open>completion_tokens\<close> and \<open>inference_time_ms\<close> of the result are
  the sums, over the three calls, of the prompt tokens and completion tokens of the usage
  (0 when a response has no usage) and of the time between the two clock readings
  around the call. When a call throws, \<open>extract\<close> throws the same error and issues no
  call after it: one invocation when the first call throws, two when the second, three
  when the third.
\<close>

theorem extract_three_invocations:
  "map (\<lambda>opts. map_option name (response_model opts))
     [extract_call_options P c instr domEls sch reqId te upi,
      refine_call_options P instr prev (data r1) sch reqId,
      metadata_call_options P instr (data r2) nseen chunks reqId]
     = [Some ''Extraction'', Some ''RefinedExtraction'', Some ''Metadata'']
   \<and> (createChatCompletion c (invocations w0)
          (extract_call_options P c instr domEls sch reqId te upi) = Inr r1
      \<and> createChatCompletion c
          (invocations w0 @ [extract_call_options P c instr domEls sch reqId te upi])
          (refine_call_options P instr prev (data r1) sch reqId) = Inr r2
      \<and> createChatCompletion c
          (invocations w0 @ [extract_call_options P c instr domEls sch reqId te upi,
                             refine_call_options P instr prev (data r1) sch reqId])
          (metadata_call_options P instr (data r2) nseen chunks reqId) = Inr r3
      \<longrightarrow>
        invocations (snd (extract_inference P clock c instr prev domEls sch nseen chunks reqId te upi lg w0))
          = invocations w0 @ [extract_call_options P c instr domEls sch reqId te upi,
                              refine_call_options P instr prev (data r1) sch reqId,
                              metadata_call_options P instr (data r2) nseen chunks reqId]
        \<and> (\<exists>result.
              fst (extract_inference P clock c instr prev domEls sch nseen chunks reqId te upi lg w0) = Inr result
              \<and> get_property ''prompt_tokens'' result =
                  JNumber (of_int (usage_prompt_tokens (usage r1) + usage_prompt_tokens (usage r2)
                                   + usage_prompt_tokens (usage r3)))
              \<and> get_property ''completion_tokens'' result =
                  JNumber (of_int (usage_completion_tokens (usage r1)
                                   + usage_completion_tokens (usage r2)
                                   + usage_completion_tokens (usage r3)))
              \<and> get_property ''inference_time_ms'' result =
                  JNumber (of_int ((clock (clock_reads w0 + 1) - clock (clock_reads w0))
                                   + (clock (clock_reads w0 + 3) - clock (clock_reads w0 + 2))
                                   + (clock (clock_reads w0 + 5) - clock (clock_reads w0 + 4))))))
   \<and> (createChatCompletion c (invocations w0)
          (extract_call_options P c instr domEls sch reqId te upi) = Inl e
      \<longrightarrow>
        fst (extract_inference P clock c instr prev domEls sch nseen chunks reqId te upi lg w0) = Inl e
        \<and> invocations (snd (extract_inference P clock c instr prev domEls sch nseen chunks reqId te upi lg w0))
            = invocations w0 @ [extract_call_options P c instr domEls sch reqId te upi])
   \<and> (createChatCompletion c (invocations w0)
          (extract_call_options P c instr domEls sch reqId te upi) = Inr r1
      \<and> createChatCompletion c
          (invocations w0 @ [extract_call_options P c instr domEls sch reqId te upi])
          (refine_call_options P instr prev (data r1) sch reqId) = Inl e
      \<longrightarrow>
        fst (extract_inference P clock c instr prev domEls sch nseen chunks reqId te upi lg w0) = Inl e
        \<and> invocations (snd (extract_inference P clock c instr prev domEls sch nseen chunks reqId te upi lg w0))
            = invocations w0 @ [extract_call_options P c instr domEls sch reqId te upi,
                                refine_call_options P instr prev (data r1) sch reqId])
   \<and> (createChatCompletion c (invocations w0)
          (extract_call_options P c instr domEls sch reqId te upi) = Inr r1
      \<and> createChatCompletion c
          (invocations w0 @ [extract_call_options P c instr domEls sch reqId te upi])
          (refine_call_options P instr prev (data r1) sch reqId) = Inr r2
      \<and> createChatCompletion c
          (invocations w0 @ [extract_call_options P c instr domEls sch reqId te upi,
                             refine_call_options P instr prev (data r1) sch reqId])
          (metadata_call_options P instr (data r2) nseen chunks reqId) = Inl e
      \<longrightarrow>
        fst (extract_inference P clock c instr prev domEls sch nseen chunks reqId te upi lg w0) = Inl e
        \<and> invocations (snd (extract_inference P clock c instr prev domEls sch nseen chunks reqId te upi lg w0))
            = invocations w0 @ [extract_call_options P c instr domEls sch reqId te upi,
                                refine_call_options P instr prev (data r1) sch reqId,
                                metadata_call_options P instr (data r2) nseen chunks reqId])"
proof (intro conjI impI)
  show "map (\<lambda>opts. map_option name (response_model opts))
     [extract_call_options P c instr domEls sch reqId te upi,
      refine_call_options P instr prev (data r1) sch reqId,
      metadata_call_options P instr (data r2) nseen chunks reqId]
     = [Some ''Extraction'', Some ''RefinedExtraction'', Some ''Metadata'']"
    by (simp add: call_names)
next
  assume a: "createChatCompletion c (invocations w0)
          (extract_call_options P c instr domEls sch reqId te upi) = Inr r1
      \<and> createChatCompletion c
          (invocations w0 @ [extract_call_options P c instr domEls sch reqId te upi])
          (refine_call_options P instr prev (data r1) sch reqId) = Inr r2
      \<and> createChatCompletion c
          (invocations w0 @ [extract_call_options P c instr domEls sch reqId te upi,
                             refine_call_options P instr prev (data r1) sch reqId])
          (metadata_call_options P instr (data r2) nseen chunks reqId) = Inr r3"
  then show "invocations (snd (extract_inference P clock c instr prev domEls sch nseen chunks reqId te upi lg w0))
          = invocations w0 @ [extract_call_options P c instr domEls sch reqId te upi,
                              refine_call_options P instr prev (data r1) sch reqId,
                              metadata_call_options P instr (data r2) nseen chunks reqId]"
    using extract_inference_third_issued by blast
  from a have res: "fst (extract_inference P clock c instr prev domEls sch nseen chunks reqId te upi lg w0) =
      Inr (set_property ''inference_time_ms''
          (JNumber (of_int
             ((clock (clock_reads w0 + 1) - clock (clock_reads w0))
              + (clock (clock_reads w0 + 3) - clock (clock_reads w0 + 2))
              + (clock (clock_reads w0 + 5) - clock (clock_reads w0 + 4)))))
          (set_property ''completion_tokens''
             (JNumber (of_int
                (usage_completion_tokens (usage r1) + usage_completion_tokens (usage r2)
                 + usage_completion_tokens (usage r3))))
             (set_property ''prompt_tokens''
                (JNumber (of_int
                   (usage_prompt_tokens (usage r1) + usage_prompt_tokens (usage r2)
                    + usage_prompt_tokens (usage r3))))
                (set_property ''metadata''
                   (JObject [(''completed'', get_property ''completed'' (data r3)),
                             (''progress'', get_property ''progress'' (data r3))])
                   (data r2)))))"
    using extract_inference_answered by blast
  show "\<exists>result.
              fst (extract_inference P clock c instr prev domEls sch nseen chunks reqId te upi lg w0) = Inr result
              \<and> get_property ''prompt_tokens'' result =
                  JNumber (of_int (usage_prompt_tokens (usage r1) + usage_prompt_tokens (usage r2)
                                   + usage_prompt_tokens (usage r3)))
              \<and> get_property ''completion_tokens'' result =
                  JNumber (of_int (usage_completion_tokens (usage r1)
                                   + usage_completion_tokens (usage r2)
                                   + usage_completion_tokens (usage r3)))
              \<and> get_property ''inference_time_ms'' result =
                  JNumber (of_int ((clock (clock_reads w0 + 1) - clock (clock_reads w0))
                                   + (clock (clock_reads w0 + 3) - clock (clock_reads w0 + 2))
                                   + (clock (clock_reads w0 + 5) - clock (clock_reads w0 + 4))))"
    by (rule exI, rule conjI, rule res) (simp add: get_property_set_property)
next
  assume "createChatCompletion c (invocations w0)
          (extract_call_options P c instr domEls sch reqId te upi) = Inl e"
  then show "fst (extract_inference P clock c instr prev domEls sch nseen chunks reqId te upi lg w0) = Inl e"
    and "invocations (snd (extract_inference P clock c instr prev domEls sch nseen chunks reqId te upi lg w0))
            = invocations w0 @ [extract_call_options P c instr domEls sch reqId te upi]"
    by (rule extract_inference_first_throws)+
next
  assume a: "createChatCompletion c (invocations w0)
          (extract_call_options P c instr domEls sch reqId te upi) = Inr r1
      \<and> createChatCompletion c
          (invocations w0 @ [extract_call_options P c instr domEls sch reqId te upi])
          (refine_call_options P instr prev (data r1) sch reqId) = Inl e"
  then show "fst (extract_inference P clock c instr prev domEls sch nseen chunks reqId te upi lg w0) = Inl e"
    using extract_inference_second_throws(1) by blast
  from a show "invocations (snd (extract_inference P clock c instr prev domEls sch nseen chunks reqId te upi lg w0))
            = invocations w0 @ [extract_call_options P c instr domEls sch reqId te upi,
                                refine_call_options P instr prev (data r1) sch reqId]"
    using extract_inference_second_throws(2) by blast
next
  assume a: "createChatCompletion c (invocations w0)
          (extract_call_options P c instr domEls sch reqId te upi) = Inr r1
      \<and> createChatCompletion c
          (invocations w0 @ [extract_call_options P c instr domEls sch reqId te upi])
          (refine_call_options P instr prev (data r1) sch reqId) = Inr r2
      \<and> createChatCompletion c
          (invocations w0 @ [extract_call_options P c instr domEls sch reqId te upi,
                             refine_call_options P instr prev (data r1) sch reqId])
          (metadata_call_options P instr (data r2) nseen chunks reqId) = Inl e"
  then show "fst (extract_inference P clock c instr prev domEls sch nseen chunks reqId te upi lg w0) = Inl e"
    using extract_inference_third_throws by blast
  from a show "invocations (snd (extract_inference P clock c instr prev domEls sch nseen chunks reqId te upi lg w0))
            = invocations w0 @ [extract_call_options P c instr domEls sch reqId te upi,
                                refine_call_options P instr prev (data r1) sch reqId,
                                metadata_call_options P instr (data r2) nseen chunks reqId]"
    using extract_inference_third_issued by blast
qed

lemma example_throwing_answers:
  "createChatCompletion (scripted_client_throwing_on call err) issued opts
     = (if map_option name (response_model opts) = Some call then Inl err
        else createChatCompletion scripted_extract_client issued opts)"
  by (simp add: scripted_client_throwing_on_def)

theorem extract_three_invocations_witness:
  "invocations (snd (extract_inference example_prompts example_clock scripted_extract_client
          ''list the titles'' [] ''[1] h2 A [2] h2 B''
          (ZObject [(''titles'', ZArray ZString)]) 1 1 ''req-3'' None None False empty_world))
     = [extract_call_options example_prompts scripted_extract_client
          ''list the titles'' ''[1] h2 A [2] h2 B'' (ZObject [(''titles'', ZArray ZString)]) ''req-3'' None None,
        refine_call_options example_prompts ''list the titles'' []
          [(''titles'', JArray [JString ''A''])] (ZObject [(''titles'', ZArray ZString)]) ''req-3'',
        metadata_call_options example_prompts ''list the titles''
          [(''titles'', JArray [JString ''A'', JString ''B''])] 1 1 ''req-3'']
   \<and> get_property ''prompt_tokens'' (projr (fst (extract_inference example_prompts example_clock scripted_extract_client
          ''list the titles'' [] ''[1] h2 A [2] h2 B''
          (ZObject [(''titles'', ZArray ZString)]) 1 1 ''req-3'' None None False empty_world))) = JNumber 300
   \<and> get_property ''completion_tokens'' (projr (fst (extract_inference example_prompts example_clock scripted_extract_client
          ''list the titles'' [] ''[1] h2 A [2] h2 B''
          (ZObject [(''titles'', ZArray ZString)]) 1 1 ''req-3'' None None False empty_world))) = JNumber 30
   \<and> get_property ''inference_time_ms'' (projr (fst (extract_inference example_prompts example_clock scripted_extract_client
          ''list the titles'' [] ''[1] h2 A [2] h2 B''
          (ZObject [(''titles'', ZArray ZString)]) 1 1 ''req-3'' None None False empty_world))) = JNumber 750
   \<and> fst (extract_inference example_prompts example_clock (scripted_client_throwing_on ''Extraction''
          (StagehandError ''Google API Error: fetch failed''))
          ''list the titles'' [] ''[1] h2 A [2] h2 B''
          (ZObject [(''titles'', ZArray ZString)]) 1 1 ''req-3'' None None False empty_world)
       = Inl (StagehandError ''Google API Error: fetch failed'')
   \<and> invocations (snd (extract_inference example_prompts example_clock (scripted_client_throwing_on ''Extraction''
          (StagehandError ''Google API Error: fetch failed''))
          ''list the titles'' [] ''[1] h2 A [2] h2 B''
          (ZObject [(''titles'', ZArray ZString)]) 1 1 ''req-3'' None None False empty_world))
       = [extract_call_options example_prompts (scripted_client_throwing_on ''Extraction''
          (StagehandError ''Google API Error: fetch failed''))
          ''list the titles'' ''[1] h2 A [2] h2 B'' (ZObject [(''titles'', ZArray ZString)]) ''req-3'' None None]
   \<and> fst (extract_inference example_prompts example_clock (scripted_client_throwing_on ''RefinedExtraction''
          (StagehandError ''Google API Error: fetch failed''))
          ''list the titles'' [] ''[1] h2 A [2] h2 B''
          (ZObject [(''titles'', ZArray ZString)]) 1 1 ''req-3'' None None False empty_world)
       = Inl (StagehandError ''Google API Error: fetch failed'')
   \<and> invocations (snd (extract_inference example_prompts example_clock (scripted_client_throwing_on ''RefinedExtraction''
          (StagehandError ''Google API Error: fetch failed''))
          ''list the titles'' [] ''[1] h2 A [2] h2 B''
          (ZObject [(''titles'', ZArray ZString)]) 1 1 ''req-3'' None None False empty_world))
       = [extract_call_options example_prompts (scripted_client_throwing_on ''RefinedExtraction''
          (StagehandError ''Google API Error: fetch failed''))
          ''list the titles'' ''[1] h2 A [2] h2 B'' (ZObject [(''titles'', ZArray ZString)]) ''req-3'' None None,
          refine_call_options example_prompts ''list the titles'' []
          [(''titles'', JArray [JString ''A''])] (ZObject [(''titles'', ZArray ZString)]) ''req-3'']
   \<and> fst (extract_inference example_prompts example_clock (scripted_client_throwing_on ''Metadata''
          (StagehandError ''Google API Error: fetch failed''))
          ''list the titles'' [] ''[1] h2 A [2] h2 B''
          (ZObject [(''titles'', ZArray ZString)]) 1 1 ''req-3'' None None False empty_world)
       = Inl (StagehandError ''Google API Error: fetch failed'')
   \<and> invocations (snd (extract_inference example_prompts example_clock (scripted_client_throwing_on ''Metadata''
          (StagehandError ''Google API Error: fetch failed''))
          ''list the titles'' [] ''[1] h2 A [2] h2 B''
          (ZObject [(''titles'', ZArray ZString)]) 1 1 ''req-3'' None None False empty_world))
       = [extract_call_options example_prompts (scripted_client_throwing_on ''Metadata''
          (StagehandError ''Google API Error: fetch failed''))
          ''list the titles'' ''[1] h2 A [2] h2 B'' (ZObject [(''titles'', ZArray ZString)]) ''req-3'' None None,
          refine_call_options example_prompts ''list the titles'' []
          [(''titles'', JArray [JString ''A''])] (ZObject [(''titles'', ZArray ZString)]) ''req-3'',
          metadata_call_options example_prompts ''list the titles''
          [(''titles'', JArray [JString ''A'', JString ''B''])] 1 1 ''req-3'']"
proof -
  note answered = extract_three_invocations
      [where P = example_prompts and clock = example_clock and c = "scripted_extract_client"
        and instr = "''list the titles''" and prev = "[]" and domEls = "''[1] h2 A [2] h2 B''"
        and sch = "(ZObject [(''titles'', ZArray ZString)])" and nseen = 1 and chunks = 1
        and reqId = "''req-3''" and te = None and upi = None and lg = False and ?w0.0 = empty_world
        and ?r1.0 = "\<lparr>data = [(''titles'', JArray [JString ''A''])],
            usage = Some \<lparr>prompt_tokens = 100, completion_tokens = 10, total_tokens = 110\<rparr>\<rparr>"
        and ?r2.0 = "\<lparr>data = [(''titles'', JArray [JString ''A'', JString ''B''])],
            usage = Some \<lparr>prompt_tokens = 200, completion_tokens = 20, total_tokens = 220\<rparr>\<rparr>"
        and ?r3.0 = "\<lparr>data = [(''progress'', JString ''two titles''), (''completed'', JBool True)],
            usage = None\<rparr>" ]
  note first = extract_three_invocations
      [where P = example_prompts and clock = example_clock and c = "(scripted_client_throwing_on ''Extraction''
          (StagehandError ''Google API Error: fetch failed''))"
        and instr = "''list the titles''" and prev = "[]" and domEls = "''[1] h2 A [2] h2 B''"
        and sch = "(ZObject [(''titles'', ZArray ZString)])" and nseen = 1 and chunks = 1
        and reqId = "''req-3''" and te = None and upi = None and lg = False and ?w0.0 = empty_world
        and e = "(StagehandError ''Google API Error: fetch failed'')" ]
  note second = extract_three_invocations
      [where P = example_prompts and clock = example_clock and c = "(scripted_client_throwing_on ''RefinedExtraction''
          (StagehandError ''Google API Error: fetch failed''))"
        and instr = "''list the titles''" and prev = "[]" and domEls = "''[1] h2 A [2] h2 B''"
        and sch = "(ZObject [(''titles'', ZArray ZString)])" and nseen = 1 and chunks = 1
        and reqId = "''req-3''" and te = None and upi = None and lg = False and ?w0.0 = empty_world
        and ?r1.0 = "\<lparr>data = [(''titles'', JArray [JString ''A''])],
            usage = Some \<lparr>prompt_tokens = 100, completion_tokens = 10, total_tokens = 110\<rparr>\<rparr>"
        and e = "(StagehandError ''Google API Error: fetch failed'')" ]
  note third = extract_three_invocations
      [where P = example_prompts and clock = example_clock and c = "(scripted_client_throwing_on ''Metadata''
          (StagehandError ''Google API Error: fetch failed''))"
        and instr = "''list the titles''" and prev = "[]" and domEls = "''[1] h2 A [2] h2 B''"
        and sch = "(ZObject [(''titles'', ZArray ZString)])" and nseen = 1 and chunks = 1
        and reqId = "''req-3''" and te = None and upi = None and lg = False and ?w0.0 = empty_world
        and ?r1.0 = "\<lparr>data = [(''titles'', JArray [JString ''A''])],
            usage = Some \<lparr>prompt_tokens = 100, completion_tokens = 10, total_tokens = 110\<rparr>\<rparr>"
        and ?r2.0 = "\<lparr>data = [(''titles'', JArray [JString ''A'', JString ''B''])],
            usage = Some \<lparr>prompt_tokens = 200, completion_tokens = 20, total_tokens = 220\<rparr>\<rparr>"
        and e = "(StagehandError ''Google API Error: fetch failed'')" ]
  have a: "invocations (snd (extract_inference example_prompts example_clock scripted_extract_client
          ''list the titles'' [] ''[1] h2 A [2] h2 B''
          (ZObject [(''titles'', ZArray ZString)]) 1 1 ''req-3'' None None False empty_world))
     = [extract_call_options example_prompts scripted_extract_client
          ''list the titles'' ''[1] h2 A [2] h2 B'' (ZObject [(''titles'', ZArray ZString)]) ''req-3'' None None,
        refine_call_options example_prompts ''list the titles'' []
          [(''titles'', JArray [JString ''A''])] (ZObject [(''titles'', ZArray ZString)]) ''req-3'',
        metadata_call_options example_prompts ''list the titles''
          [(''titles'', JArray [JString ''A'', JString ''B''])] 1 1 ''req-3'']
   \<and> get_property ''prompt_tokens'' (projr (fst (extract_inference example_prompts example_clock scripted_extract_client
          ''list the titles'' [] ''[1] h2 A [2] h2 B''
          (ZObject [(''titles'', ZArray ZString)]) 1 1 ''req-3'' None None False empty_world))) = JNumber 300
   \<and> get_property ''completion_tokens'' (projr (fst (extract_inference example_prompts example_clock scripted_extract_client
          ''list the titles'' [] ''[1] h2 A [2] h2 B''
          (ZObject [(''titles'', ZArray ZString)]) 1 1 ''req-3'' None None False empty_world))) = JNumber 30
   \<and> get_property ''inference_time_ms'' (projr (fst (extract_inference example_prompts example_clock scripted_extract_client
          ''list the titles'' [] ''[1] h2 A [2] h2 B''
          (ZObject [(''titles'', ZArray ZString)]) 1 1 ''req-3'' None None False empty_world))) = JNumber 750"
    using answered
    by (auto simp add: example_extract_answers empty_world_def example_clock_def
        usage_prompt_tokens_def usage_completion_tokens_def)
  have b: "fst (extract_inference example_prompts example_clock (scripted_client_throwing_on ''Extraction''
          (StagehandError ''Google API Error: fetch failed''))
          ''list the titles'' [] ''[1] h2 A [2] h2 B''
          (ZObject [(''titles'', ZArray ZString)]) 1 1 ''req-3'' None None False empty_world)
       = Inl (StagehandError ''Google API Error: fetch failed'')
   \<and> invocations (snd (extract_inference example_prompts example_clock (scripted_client_throwing_on ''Extraction''
          (StagehandError ''Google API Error: fetch failed''))
          ''list the titles'' [] ''[1] h2 A [2] h2 B''
          (ZObject [(''titles'', ZArray ZString)]) 1 1 ''req-3'' None None False empty_world))
       = [extract_call_options example_prompts (scripted_client_throwing_on ''Extraction''
          (StagehandError ''Google API Error: fetch failed''))
          ''list the titles'' ''[1] h2 A [2] h2 B'' (ZObject [(''titles'', ZArray ZString)]) ''req-3'' None None]"
    using first by (simp add: example_throwing_answers call_names empty_world_def)
  have c: "fst (extract_inference example_prompts example_clock (scripted_client_throwing_on ''RefinedExtraction''
          (StagehandError ''Google API Error: fetch failed''))
          ''list the titles'' [] ''[1] h2 A [2] h2 B''
          (ZObject [(''titles'', ZArray ZString)]) 1 1 ''req-3'' None None False empty_world)
       = Inl (StagehandError ''Google API Error: fetch failed'')
   \<and> invocations (snd (extract_inference example_prompts example_clock (scripted_client_throwing_on ''RefinedExtraction''
          (StagehandError ''Google API Error: fetch failed''))
          ''list the titles'' [] ''[1] h2 A [2] h2 B''
          (ZObject [(''titles'', ZArray ZString)]) 1 1 ''req-3'' None None False empty_world))
       = [extract_call_options example_prompts (scripted_client_throwing_on ''RefinedExtraction''
          (StagehandError ''Google API Error: fetch failed''))
          ''list the titles'' ''[1] h2 A [2] h2 B'' (ZObject [(''titles'', ZArray ZString)]) ''req-3'' None None,
          refine_call_options example_prompts ''list the titles'' []
          [(''titles'', JArray [JString ''A''])] (ZObject [(''titles'', ZArray ZString)]) ''req-3'']"
    using second
    by (simp add: example_throwing_answers call_names example_extract_answers empty_world_def)
  have d: "fst (extract_inference example_prompts example_clock (scripted_client_throwing_on ''Metadata''
          (StagehandError ''Google API Error: fetch failed''))
          ''list the titles'' [] ''[1] h2 A [2] h2 B''
          (ZObject [(''titles'', ZArray ZString)]) 1 1 ''req-3'' None None False empty_world)
       = Inl (StagehandError ''Google API Error: fetch failed'')
   \<and> invocations (snd (extract_inference example_prompts example_clock (scripted_client_throwing_on ''Metadata''
          (StagehandError ''Google API Error: fetch failed''))
          ''list the titles'' [] ''[1] h2 A [2] h2 B''
          (ZObject [(''titles'', ZArray ZString)]) 1 1 ''req-3'' None None False empty_world))
       = [extract_call_options example_prompts (scripted_client_throwing_on ''Metadata''
          (StagehandError ''Google API Error: fetch failed''))
          ''list the titles'' ''[1] h2 A [2] h2 B'' (ZObject [(''titles'', ZArray ZString)]) ''req-3'' None None,
          refine_call_options example_prompts ''list the titles'' []
          [(''titles'', JArray [JString ''A''])] (ZObject [(''titles'', ZArray ZString)]) ''req-3'',
          metadata_call_options example_prompts ''list the titles''
          [(''titles'', JArray [JString ''A'', JString ''B''])] 1 1 ''req-3'']"
    using third
    by (simp add: example_throwing_answers call_names example_extract_answers empty_world_def)
  from a b c d show ?thesis by (simp only: simp_thms)
qed

text \<open>
  A run whose first call throws: \<open>extract\<close> throws that error after one invocation, and
  returns no result.
\<close>

theorem extract_first_call_throws_counterexample:
  "fst (extract_inference example_prompts example_clock
          (fixed_client (Inl (StagehandError ''Google API Error: fetch failed'')))
          ''list the titles'' [] ''[1] h2 A [2] h2 B''
          (ZObject [(''titles'', ZArray ZString)]) 1 1 ''req-3'' None None False empty_world)
     = Inl (StagehandError ''Google API Error: fetch failed'')
   \<and> length (invocations (snd (extract_inference example_prompts example_clock
          (fixed_client (Inl (StagehandError ''Google API Error: fetch failed'')))
          ''list the titles'' [] ''[1] h2 A [2] h2 B''
          (ZObject [(''titles'', ZArray ZString)]) 1 1 ''req-3'' None None False empty_world))) = 1"
  by (simp add: extract_inference_def timed_completion_def Date_now_def Let_def
      fixed_client_def empty_world_def log_call_file_def)

lemma shape_metadataSchema:
  "shape metadataSchema = ZObject [(''progress'', ZString), (''completed'', ZBoolean)]"
  by (simp add: metadataSchema_def)

lemma messages_metadata_call_options:
  "messages (metadata_call_options P instr refined nseen chunks reqId)
     = [buildMetadataSystemPrompt P, buildMetadataPrompt P instr refined nseen chunks]"
  by (simp add: metadata_call_options_def inference_options_def Let_def)

text \<open>
  Claim C7, as amended. A metadata call has the messages \<open>buildMetadataSystemPrompt()\<close>
  and \<open>buildMetadataPrompt(instruction, refined, chunksSeen, chunksTotal)\<close> and the
  response model \<open>Metadata\<close>, whose schema is an object of a string \<open>progress\<close> and a
  boolean \<open>completed\<close>. When the client answers the extract call and the refine call,
  \<open>extract\<close> issues the metadata call as its third invocation, with \<open>refined\<close> the data
  of the response to the refine call, not that of the extract call. When the client
  answers the metadata call too, \<open>extract\<close> returns a result whose \<open>metadata\<close> has the
  \<open>completed\<close> and \<open>progress\<close> of the data of the response to the metadata call, whose
  properties of any other name than \<open>metadata\<close>, \<open>prompt_tokens\<close>, \<open>completion_tokens\<close>
  and \<open>inference_time_ms\<close> are those of the refined data, and whose property names are
  those of the refined data and these four. When the extract call or the refine call
  throws, no metadata call is issued.
\<close>

theorem extract_metadata_call:
  "messages (metadata_call_options P instr refined nseen chunks reqId)
     = [buildMetadataSystemPrompt P, buildMetadataPrompt P instr refined nseen chunks]
   \<and> response_model (metadata_call_options P instr refined nseen chunks reqId)
       = Some \<lparr>name = ''Metadata'', schema = metadataSchema\<rparr>
   \<and> shape metadataSchema = ZObject [(''progress'', ZString), (''completed'', ZBoolean)]
   \<and> (createChatCompletion c (invocations w0)
          (extract_call_options P c instr domEls sch reqId te upi) = Inr r1
      \<and> createChatCompletion c
          (invocations w0 @ [extract_call_options P c instr domEls sch reqId te upi])
          (refine_call_options P instr prev (data r1) sch reqId) = Inr r2
      \<longrightarrow>
        invocations (snd (extract_inference P clock c instr prev domEls sch nseen chunks reqId te upi lg w0))
          = invocations w0 @ [extract_call_options P c instr domEls sch reqId te upi,
                              refine_call_options P instr prev (data r1) sch reqId,
                              metadata_call_options P instr (data r2) nseen chunks reqId])
   \<and> (createChatCompletion c (invocations w0)
          (extract_call_options P c instr domEls sch reqId te upi) = Inr r1
      \<and> createChatCompletion c
          (invocations w0 @ [extract_call_options P c instr domEls sch reqId te upi])
          (refine_call_options P instr prev (data r1) sch reqId) = Inr r2
      \<and> createChatCompletion c
          (invocations w0 @ [extract_call_options P c instr domEls sch reqId te upi,
                             refine_call_options P instr prev (data r1) sch reqId])
          (metadata_call_options P instr (data r2) nseen chunks reqId) = Inr r3
      \<longrightarrow>
        (\<exists>result.
              fst (extract_inference P clock c instr prev domEls sch nseen chunks reqId te upi lg w0) = Inr result
              \<and> get_property ''metadata'' result =
                  JObject [(''completed'', get_property ''completed'' (data r3)),
                           (''progress'', get_property ''progress'' (data r3))]
              \<and> (\<forall>k. k \<notin> {''metadata'', ''prompt_tokens'', ''completion_tokens'', ''inference_time_ms''}
                     \<longrightarrow> get_property k result = get_property k (data r2))
              \<and> fst ` set result =
                  fst ` set (data r2)
                    \<union> {''metadata'', ''prompt_tokens'', ''completion_tokens'', ''inference_time_ms''}))
   \<and> (createChatCompletion c (invocations w0)
          (extract_call_options P c instr domEls sch reqId te upi) = Inl e
      \<longrightarrow>
        invocations (snd (extract_inference P clock c instr prev domEls sch nseen chunks reqId te upi lg w0))
          = invocations w0 @ [extract_call_options P c instr domEls sch reqId te upi])
   \<and> (createChatCompletion c (invocations w0)
          (extract_call_options P c instr domEls sch reqId te upi) = Inr r1
      \<and> createChatCompletion c
          (invocations w0 @ [extract_call_options P c instr domEls sch reqId te upi])
          (refine_call_options P instr prev (data r1) sch reqId) = Inl e
      \<longrightarrow>
        invocations (snd (extract_inference P clock c instr prev domEls sch nseen chunks reqId te upi lg w0))
          = invocations w0 @ [extract_call_options P c instr domEls sch reqId te upi,
                              refine_call_options P instr prev (data r1) sch reqId])"
proof (intro conjI impI)
  show "messages (metadata_call_options P instr refined nseen chunks reqId)
     = [buildMetadataSystemPrompt P, buildMetadataPrompt P instr refined nseen chunks]"
    by (rule messages_metadata_call_options)
next
  show "response_model (metadata_call_options P instr refined nseen chunks reqId)
       = Some \<lparr>name = ''Metadata'', schema = metadataSchema\<rparr>"
    by (rule call_names(3))
next
  show "shape metadataSchema = ZObject [(''progress'', ZString), (''completed'', ZBoolean)]"
    by (rule shape_metadataSchema)
next
  assume "createChatCompletion c (invocations w0)
          (extract_call_options P c instr domEls sch reqId te upi) = Inr r1
      \<and> createChatCompletion c
          (invocations w0 @ [extract_call_options P c instr domEls sch reqId te upi])
          (refine_call_options P instr prev (data r1) sch reqId) = Inr r2"
  then show "invocations (snd (extract_inference P clock c instr prev domEls sch nseen chunks reqId te upi lg w0))
          = invocations w0 @ [extract_call_options P c instr domEls sch reqId te upi,
                              refine_call_options P instr prev (data r1) sch reqId,
                              metadata_call_options P instr (data r2) nseen chunks reqId]"
    using extract_inference_third_issued by blast
next
  assume "createChatCompletion c (invocations w0)
          (extract_call_options P c instr domEls sch reqId te upi) = Inr r1
      \<and> createChatCompletion c
          (invocations w0 @ [extract_call_options P c instr domEls sch reqId te upi])
          (refine_call_options P instr prev (data r1) sch reqId) = Inr r2
      \<and> createChatCompletion c
          (invocations w0 @ [extract_call_options P c instr domEls sch reqId te upi,
                             refine_call_options P instr prev (data r1) sch reqId])
          (metadata_call_options P instr (data r2) nseen chunks reqId) = Inr r3"
  then obtain result where res: "fst (extract_inference P clock c instr prev domEls sch nseen chunks reqId te upi lg w0) = Inr result"
    and result: "result =
        set_property ''inference_time_ms''
          (JNumber (of_int
             ((clock (clock_reads w0 + 1) - clock (clock_reads w0))
              + (clock (clock_reads w0 + 3) - clock (clock_reads w0 + 2))
              + (clock (clock_reads w0 + 5) - clock (clock_reads w0 + 4)))))
          (set_property ''completion_tokens''
             (JNumber (of_int
                (usage_completion_tokens (usage r1) + usage_completion_tokens (usage r2)
                 + usage_completion_tokens (usage r3))))
             (set_property ''prompt_tokens''
                (JNumber (of_int
                   (usage_prompt_tokens (usage r1) + usage_prompt_tokens (usage r2)
                    + usage_prompt_tokens (usage r3))))
                (set_property ''metadata''
                   (JObject [(''completed'', get_property ''completed'' (data r3)),
                             (''progress'', get_property ''progress'' (data r3))])
                   (data r2))))"
    using extract_inference_answered by blast
  have meta: "get_property ''metadata'' result =
                  JObject [(''completed'', get_property ''completed'' (data r3)),
                           (''progress'', get_property ''progress'' (data r3))]"
    by (simp add: result get_property_set_property)
  have others: "\<forall>k. k \<notin> {''metadata'', ''prompt_tokens'', ''completion_tokens'', ''inference_time_ms''}
                     \<longrightarrow> get_property k result = get_property k (data r2)"
    by (simp add: result get_property_set_property)
  have keys: "fst ` set result =
                  fst ` set (data r2)
                    \<union> {''metadata'', ''prompt_tokens'', ''completion_tokens'', ''inference_time_ms''}"
    unfolding result keys_set_property by blast
  show "\<exists>result.
              fst (extract_inference P clock c instr prev domEls sch nseen chunks reqId te upi lg w0) = Inr result
              \<and> get_property ''metadata'' result =
                  JObject [(''completed'', get_property ''completed'' (data r3)),
                           (''progress'', get_property ''progress'' (data r3))]
              \<and> (\<forall>k. k \<notin> {''metadata'', ''prompt_tokens'', ''completion_tokens'', ''inference_time_ms''}
                     \<longrightarrow> get_property k result = get_property k (data r2))
              \<and> fst ` set result =
                  fst ` set (data r2)
                    \<union> {''metadata'', ''prompt_tokens'', ''completion_tokens'', ''inference_time_ms''}"
    by (rule exI [of _ result]) (intro conjI res meta others keys)
next
  assume "createChatCompletion c (invocations w0)
          (extract_call_options P c instr domEls sch reqId te upi) = Inl e"
  then show "invocations (snd (extract_inference P clock c instr prev domEls sch nseen chunks reqId te upi lg w0))
          = invocations w0 @ [extract_call_options P c instr domEls sch reqId te upi]"
    by (rule extract_inference_first_throws(2))
next
  assume "createChatCompletion c (invocations w0)
          (extract_call_options P c instr domEls sch reqId te upi) = Inr r1
      \<and> createChatCompletion c
          (invocations w0 @ [extract_call_options P c instr domEls sch reqId te upi])
          (refine_call_options P instr prev (data r1) sch reqId) = Inl e"
  then show "invocations (snd (extract_inference P clock c instr prev domEls sch nseen chunks reqId te upi lg w0))
          = invocations w0 @ [extract_call_options P c instr domEls sch reqId te upi,
                              refine_call_options P instr prev (data r1) sch reqId]"
    using extract_inference_second_throws(2) by blast
qed

theorem extract_metadata_call_witness:
  "invocations (snd (extract_inference example_prompts example_clock scripted_extract_client
          ''list the titles'' [] ''[1] h2 A [2] h2 B''
          (ZObject [(''titles'', ZArray ZString)]) 1 1 ''req-3'' None None False empty_world))
     = [extract_call_options example_prompts scripted_extract_client
          ''list the titles'' ''[1] h2 A [2] h2 B'' (ZObject [(''titles'', ZArray ZString)]) ''req-3'' None None,
        refine_call_options example_prompts ''list the titles'' []
          [(''titles'', JArray [JString ''A''])] (ZObject [(''titles'', ZArray ZString)]) ''req-3'',
        metadata_call_options example_prompts ''list the titles''
          [(''titles'', JArray [JString ''A'', JString ''B''])] 1 1 ''req-3'']
   \<and> get_property ''metadata'' (projr (fst (extract_inference example_prompts example_clock scripted_extract_client
          ''list the titles'' [] ''[1] h2 A [2] h2 B''
          (ZObject [(''titles'', ZArray ZString)]) 1 1 ''req-3'' None None False empty_world)))
       = JObject [(''completed'', JBool True), (''progress'', JString ''two titles'')]
   \<and> get_property ''titles'' (projr (fst (extract_inference example_prompts example_clock scripted_extract_client
          ''list the titles'' [] ''[1] h2 A [2] h2 B''
          (ZObject [(''titles'', ZArray ZString)]) 1 1 ''req-3'' None None False empty_world)))
       = JArray [JString ''A'', JString ''B'']
   \<and> fst ` set (projr (fst (extract_inference example_prompts example_clock scripted_extract_client
          ''list the titles'' [] ''[1] h2 A [2] h2 B''
          (ZObject [(''titles'', ZArray ZString)]) 1 1 ''req-3'' None None False empty_world)))
       = {''titles'', ''metadata'', ''prompt_tokens'', ''completion_tokens'',
          ''inference_time_ms''}"
proof -
  note run = extract_metadata_call
      [where P = example_prompts and clock = example_clock and c = "scripted_extract_client"
        and instr = "''list the titles''" and prev = "[]" and domEls = "''[1] h2 A [2] h2 B''"
        and sch = "(ZObject [(''titles'', ZArray ZString)])" and nseen = 1 and chunks = 1
        and reqId = "''req-3''" and te = None and upi = None and lg = False
        and ?w0.0 = empty_world
        and refined = "[(''titles'', JArray [JString ''A'', JString ''B''])]"
        and ?r1.0 = "\<lparr>data = [(''titles'', JArray [JString ''A''])],
            usage = Some \<lparr>prompt_tokens = 100, completion_tokens = 10, total_tokens = 110\<rparr>\<rparr>"
        and ?r2.0 = "\<lparr>data = [(''titles'', JArray [JString ''A'', JString ''B''])],
            usage = Some \<lparr>prompt_tokens = 200, completion_tokens = 20, total_tokens = 220\<rparr>\<rparr>"
        and ?r3.0 = "\<lparr>data = [(''progress'', JString ''two titles''), (''completed'', JBool True)],
            usage = None\<rparr>"]
  have issued: "invocations (snd (extract_inference example_prompts example_clock scripted_extract_client
          ''list the titles'' [] ''[1] h2 A [2] h2 B''
          (ZObject [(''titles'', ZArray ZString)]) 1 1 ''req-3'' None None False empty_world))
     = [extract_call_options example_prompts scripted_extract_client
          ''list the titles'' ''[1] h2 A [2] h2 B'' (ZObject [(''titles'', ZArray ZString)]) ''req-3'' None None,
        refine_call_options example_prompts ''list the titles'' []
          [(''titles'', JArray [JString ''A''])] (ZObject [(''titles'', ZArray ZString)]) ''req-3'',
        metadata_call_options example_prompts ''list the titles''
          [(''titles'', JArray [JString ''A'', JString ''B''])] 1 1 ''req-3'']"
    using run by (simp add: example_extract_answers empty_world_def)
  have "\<exists>result. fst (extract_inference example_prompts example_clock scripted_extract_client
          ''list the titles'' [] ''[1] h2 A [2] h2 B''
          (ZObject [(''titles'', ZArray ZString)]) 1 1 ''req-3'' None None False empty_world) = Inr result
       \<and> get_property ''metadata'' result
           = JObject [(''completed'', JBool True), (''progress'', JString ''two titles'')]
       \<and> (\<forall>k. k \<notin> {''metadata'', ''prompt_tokens'', ''completion_tokens'', ''inference_time_ms''}
             \<longrightarrow> get_property k result
                 = get_property k [(''titles'', JArray [JString ''A'', JString ''B''])])
       \<and> fst ` set result = {''titles''} \<union> {''metadata'', ''prompt_tokens'', ''completion_tokens'', ''inference_time_ms''}"
    using run by (simp add: example_extract_answers get_property_Cons)
  then obtain result where res: "fst (extract_inference example_prompts example_clock scripted_extract_client
          ''list the titles'' [] ''[1] h2 A [2] h2 B''
          (ZObject [(''titles'', ZArray ZString)]) 1 1 ''req-3'' None None False empty_world) = Inr result"
    and meta: "get_property ''metadata'' result
       = JObject [(''completed'', JBool True), (''progress'', JString ''two titles'')]"
    and others: "\<forall>k. k \<notin> {''metadata'', ''prompt_tokens'', ''completion_tokens'', ''inference_time_ms''}
       \<longrightarrow> get_property k result = get_property k [(''titles'', JArray [JString ''A'', JString ''B''])]"
    and keys: "fst ` set result = {''titles''} \<union> {''metadata'', ''prompt_tokens'', ''completion_tokens'', ''inference_time_ms''}"
    by blast
  from others have titles: "get_property ''titles'' result = JArray [JString ''A'', JString ''B'']"
    by (simp add: get_property_Cons)
  from keys have names: "fst ` set result
       = {''titles'', ''metadata'', ''prompt_tokens'', ''completion_tokens'',
          ''inference_time_ms''}"
    by auto
  show ?thesis
    using issued meta titles names by (simp only: res sum.sel simp_thms)
qed

text \<open>
  A refined result that has a property \<open>metadata\<close> of its own: the returned value has the
  metadata of the metadata call in its place, so it is not the refined result's fields
  together with a metadata field.
\<close>

theorem extract_refined_field_overwritten_counterexample:
  "fst (extract_inference example_prompts example_clock (scripted_client_refining
          [(''titles'', JArray [JString ''A'']), (''metadata'', JString ''page 1 of 3'')])
          ''list the titles'' [] ''[1] h2 A [2] h2 B''
          (ZObject [(''titles'', ZArray ZString)]) 1 1 ''req-3'' None None False empty_world)
     = Inr [(''titles'', JArray [JString ''A'']),
            (''metadata'', JObject [(''completed'', JBool False),
                                    (''progress'', JString ''one title'')]),
            (''prompt_tokens'', JNumber 0),
            (''completion_tokens'', JNumber 0),
            (''inference_time_ms'', JNumber 750)]
   \<and> get_property ''metadata''
         [(''titles'', JArray [JString ''A'']), (''metadata'', JString ''page 1 of 3'')]
       = JString ''page 1 of 3''"
  by (simp add: extract_inference_def timed_completion_def Date_now_def Let_def
      extract_call_options_def refine_call_options_def metadata_call_options_def
      inference_options_def scripted_client_refining_def example_clock_def empty_world_def
      log_call_file_def log_response_file_def usage_prompt_tokens_def
      usage_completion_tokens_def get_property_def)

subsection \<open>Google client: createChatCompletion\<close>

lemma GoogleClient_structured_with_content:
  assumes "response_model opts = Some rm"
    and "gen (google_request mn upi b64 opts) = Inr response"
    and "candidate_parts response = Some ps"
  shows "snd (GoogleClient_createChatCompletion mn upi b64 gen parse now opts) =
           Inr (Structured
             \<lparr>data = (case parse (response_text ps) of
                        Some v \<Rightarrow> v
                      | None \<Rightarrow> text_fallback (response_text ps)),
              usage = Some (usage_data response)\<rparr>)"
  using assms
  by (simp add: GoogleClient_createChatCompletion_def Let_def split: option.splits)

lemma GoogleClient_errors:
  assumes "snd (GoogleClient_createChatCompletion mn upi b64 gen parse now opts) = Inl e"
  shows "\<exists>m. e = StagehandError (''Google API Error: '' @ m)"
  using assms
  by (auto simp: GoogleClient_createChatCompletion_def Let_def
      split: sum.splits option.splits)

lemma GoogleClient_sdk_throws:
  assumes "gen (google_request mn upi b64 opts) = Inl err"
  shows "snd (GoogleClient_createChatCompletion mn upi b64 gen parse now opts) =
           Inl (StagehandError (''Google API Error: '' @ error_message err))"
  using assms by (simp add: GoogleClient_createChatCompletion_def Let_def)

lemma GoogleClient_no_content:
  assumes "gen (google_request mn upi b64 opts) = Inr response"
    and "candidate_parts response = None"
  shows "snd (GoogleClient_createChatCompletion mn upi b64 gen parse now opts) =
           Inl (StagehandError (''Google API Error: '' @ no_content_failure response))"
  using assms by (simp add: GoogleClient_createChatCompletion_def Let_def)

text \<open>
  Claim C1, as amended. A structured call through the Google client never throws a
  \<open>SchemaValidationError\<close>: whatever it throws is a \<open>StagehandError\<close> whose message
  starts with \<open>Google API Error: \<close>. It throws one, with the message of the SDK's
  error, when the SDK call throws, and one, with the finish and block reasons, when the
  response has no content part. When the provider answers with content, the call returns
  \<open>{data, usage}\<close>: the data is what \<open>JSON.parse\<close> makes of the response text when it
  parses (the schema is not consulted), and \<open>{completed: text, progress: 1}\<close> when it
  does not.
\<close>

theorem GoogleClient_structured_call:
  assumes "response_model opts = Some rm"
  shows "snd (GoogleClient_createChatCompletion mn upi b64 gen parse now opts)
           \<noteq> Inl (SchemaValidationError msg)
       \<and> (snd (GoogleClient_createChatCompletion mn upi b64 gen parse now opts) = Inl e \<longrightarrow>
            (\<exists>m. e = StagehandError (''Google API Error: '' @ m)))
       \<and> (gen (google_request mn upi b64 opts) = Inr response
            \<and> candidate_parts response = Some ps \<longrightarrow>
            snd (GoogleClient_createChatCompletion mn upi b64 gen parse now opts) =
              Inr (Structured
                \<lparr>data = (case parse (response_text ps) of
                           Some v \<Rightarrow> v
                         | None \<Rightarrow> text_fallback (response_text ps)),
                 usage = Some (usage_data response)\<rparr>))
       \<and> (gen (google_request mn upi b64 opts) = Inl err \<longrightarrow>
            snd (GoogleClient_createChatCompletion mn upi b64 gen parse now opts) =
              Inl (StagehandError (''Google API Error: '' @ error_message err)))
       \<and> (gen (google_request mn upi b64 opts) = Inr response
            \<and> candidate_parts response = None \<longrightarrow>
            snd (GoogleClient_createChatCompletion mn upi b64 gen parse now opts) =
              Inl (StagehandError (''Google API Error: '' @ no_content_failure response)))"
proof (intro conjI impI)
  show "snd (GoogleClient_createChatCompletion mn upi b64 gen parse now opts)
           \<noteq> Inl (SchemaValidationError msg)"
    using GoogleClient_errors [of mn upi b64 gen parse now opts "SchemaValidationError msg"]
    by auto
next
  assume "snd (GoogleClient_createChatCompletion mn upi b64 gen parse now opts) = Inl e"
  then show "\<exists>m. e = StagehandError (''Google API Error: '' @ m)"
    by (rule GoogleClient_errors)
next
  assume "gen (google_request mn upi b64 opts) = Inr response
            \<and> candidate_parts response = Some ps"
  then show "snd (GoogleClient_createChatCompletion mn upi b64 gen parse now opts) =
              Inr (Structured
                \<lparr>data = (case parse (response_text ps) of
                           Some v \<Rightarrow> v
                         | None \<Rightarrow> text_fallback (response_text ps)),
                 usage = Some (usage_data response)\<rparr>)"
    using assms GoogleClient_structured_with_content by blast
next
  assume "gen (google_request mn upi b64 opts) = Inl err"
  then show "snd (GoogleClient_createChatCompletion mn upi b64 gen parse now opts) =
              Inl (StagehandError (''Google API Error: '' @ error_message err))"
    by (rule GoogleClient_sdk_throws)
next
  assume "gen (google_request mn upi b64 opts) = Inr response
            \<and> candidate_parts response = None"
  then show "snd (GoogleClient_createChatCompletion mn upi b64 gen parse now opts) =
              Inl (StagehandError (''Google API Error: '' @ no_content_failure response))"
    using GoogleClient_no_content by blast
qed

lemma JSON_parse_examples:
  "JSON_parse ''I cannot do that.'' = None"
  "JSON_parse ''{}'' = Some (JObject [])"
  by (simp_all add: JSON_parse_def skip_ws_def is_ws_def is_digit_def)

lemma example_structured_options:
  "response_model
     (inference_options [ChatMessage ''user'' (StringContent ''click the button'')]
        ''Action'' actSchema ''req-9'')
     = Some \<lparr>name = ''Action'', schema = actSchema\<rparr>"
  by (simp add: inference_options_def)

theorem GoogleClient_structured_call_witness:
  "snd (GoogleClient_createChatCompletion ''gemini-2.0-flash'' None no_base64
          (answers_with ''{}'') JSON_parse 0
          (inference_options [ChatMessage ''user'' (StringContent ''click the button'')]
             ''Action'' actSchema ''req-9''))
     = Inr (Structured
         \<lparr>data = JObject [],
          usage = Some \<lparr>prompt_tokens = 40, completion_tokens = 8, total_tokens = 48\<rparr>\<rparr>)
   \<and> snd (GoogleClient_createChatCompletion ''gemini-2.0-flash'' None no_base64
          (provider_throws ''fetch failed'') JSON_parse 0
          (inference_options [ChatMessage ''user'' (StringContent ''click the button'')]
             ''Action'' actSchema ''req-9''))
     = Inl (StagehandError ''Google API Error: fetch failed'')
   \<and> snd (GoogleClient_createChatCompletion ''gemini-2.0-flash'' None no_base64
          answers_blocked JSON_parse 0
          (inference_options [ChatMessage ''user'' (StringContent ''click the button'')]
             ''Action'' actSchema ''req-9''))
     = Inl (StagehandError
         (''Google API Error: Google API call failed or returned no content. ''
          @ ''FinishReason: undefined, BlockReason: SAFETY''))"
  using
    GoogleClient_structured_call [OF example_structured_options,
      of "''gemini-2.0-flash''" None no_base64 "answers_with ''{}''" JSON_parse 0 _ _
         "\<lparr>candidates = Some [\<lparr>content_parts = Some [TextPart ''{}''],
                              finishReason = Some ''STOP'', safetyRatings = None\<rparr>],
          blockReason = None,
          usageMetadata = Some \<lparr>promptTokenCount = Some 40, candidatesTokenCount = Some 8,
                                totalTokenCount = Some 48\<rparr>\<rparr>"
         "[TextPart ''{}'']"]
    GoogleClient_structured_call [OF example_structured_options,
      of "''gemini-2.0-flash''" None no_base64 "provider_throws ''fetch failed''" JSON_parse 0
         _ _ _ _ "Error ''fetch failed''"]
    GoogleClient_structured_call [OF example_structured_options,
      of "''gemini-2.0-flash''" None no_base64 answers_blocked JSON_parse 0 _ _
         "\<lparr>candidates = None, blockReason = Some ''SAFETY'', usageMetadata = None\<rparr>"]
  by (simp add: answers_with_def candidate_parts_def first_candidate_def response_text_def
      usage_data_def count_or_zero_def JSON_parse_examples provider_throws_def
      answers_blocked_def error_message_def no_content_failure_def String_of_def)

text \<open>
  Claim C1 as stated fails. The provider answers a structured call (the schema of
  \<open>actInference\<close>) with a text that is not JSON: the call returns successfully, with
  the made-up data \<open>{completed: text, progress: 1}\<close>. It answers with \<open>{}\<close>, which is
  JSON but not of the schema: the call returns it as the data.
\<close>

theorem GoogleClient_text_fallback_counterexample:
  "JSON_parse ''I cannot do that.'' = None
   \<and> GoogleClient_createChatCompletion ''gemini-2.0-flash'' None no_base64
        (answers_with ''I cannot do that.'') JSON_parse 0
        (inference_options [ChatMessage ''user'' (StringContent ''click the button'')]
           ''Action'' actSchema ''req-9'')
     = ([google_log ''creating chat completion'' 2,
         google_log ''chat completion with schema successful (using text fallback)'' 1],
        Inr (Structured
          \<lparr>data = JObject [(''completed'', JString ''I cannot do that.''),
                           (''progress'', JNumber 1)],
           usage = Some \<lparr>prompt_tokens = 40, completion_tokens = 8, total_tokens = 48\<rparr>\<rparr>))
   \<and> snd (GoogleClient_createChatCompletion ''gemini-2.0-flash'' None no_base64
        (answers_with ''{}'') JSON_parse 0
        (inference_options [ChatMessage ''user'' (StringContent ''click the button'')]
           ''Action'' actSchema ''req-9''))
     = Inr (Structured
          \<lparr>data = JObject [],
           usage = Some \<lparr>prompt_tokens = 40, completion_tokens = 8, total_tokens = 48\<rparr>\<rparr>)"
  by (simp add: GoogleClient_createChatCompletion_def Let_def answers_with_def
      candidate_parts_def first_candidate_def response_text_def usage_data_def
      count_or_zero_def JSON_parse_examples inference_options_def text_fallback_def)

subsection \<open>Log forwarding\<close>






























end
